theory Spec2Isabelle
  imports Main "HOL-Library.AList" "HOL-Library.Word"
begin

unbundle bit_operations_syntax

section \<open>Engine data read by the exporter\<close>

text \<open>
  The exporter (BlueprintExporter.cpp) walks engine objects through raw pointers. A
  pointer is an address or null (\<open>None\<close>); the objects live in a store that gives
  the object at every address, so the sharing of nodes between the pins linked to them is
  kept. The exporter only reads the store.
\<close>

type_synonym addr = nat

text \<open>A string (\<open>FString\<close>) is the list of its characters; two strings are the same
  when their characters are.\<close>

type_synonym FString = string

text \<open>
  Modelled from the spec: the engine's name type (FName) is declared outside the
  repository. The spec's data model gives names and the base category of a type
  descriptor as strings; \<open>ToString\<close> of a name is its string and comparison is
  equality of the strings. What the engine prints for the empty name is not part of the
  model: a type descriptor carries a category (the callers of the type encoder must
  ensure it, spec 4.1), and what is proved of the encoder's result is proved for those.
\<close>

type_synonym FName = string

definition FName_ToString :: "FName \<Rightarrow> FString" where
  "FName_ToString n = n"

text \<open>An engine object as far as the exporter reads it: its name, its path name and the
  name of its class.\<close>

record UObject =
  ObjName :: FString
  ObjPathName :: FString
  ObjClassName :: FString

datatype EEdGraphPinDirection = EGPD_Input | EGPD_Output

text \<open>\<open>PinSubCategoryObject\<close> is a weak pointer: \<open>None\<close> when it is not valid.
  \<open>IsArray\<close> is the result of the pin type's method of that name.\<close>

record FEdGraphPinType =
  PinCategory :: FName
  PinSubCategoryObject :: "UObject option"
  IsArray :: bool

record UEdGraphPin =
  PinName :: FString
  PinDisplayName :: FString
  Direction :: EEdGraphPinDirection
  PinType :: FEdGraphPinType
  DefaultValue :: FString
  DefaultObject :: "UObject option"
  LinkedTo :: "addr option list"
  OwningNode :: "addr option"

text \<open>The engine classes the exporter casts a node to. \<open>NodeBases\<close> lists those the
  node's class is or derives from: \<open>Cast<T>(Node)\<close> succeeds exactly for them.
  \<open>MenuCategory\<close> is what \<open>GetMenuCategory\<close> gives on a K2 node, and
  \<open>MemberParentClass\<close> what \<open>FunctionReference.GetMemberParentClass()\<close> gives on a
  call-function node.\<close>

datatype K2Class =
  K2Node | K2Node_Event | K2Node_FunctionEntry | K2Node_CallFunction
  | K2Node_VariableGet | K2Node_VariableSet

record UEdGraphNode =
  NodeName :: FString
  NodeClassName :: FString
  NodeBases :: "K2Class list"
  NodeTitle :: FString
  MenuCategory :: FString
  NodePosX :: "32 word"
  NodePosY :: "32 word"
  Pins :: "addr option list"
  MemberParentClass :: "UObject option"

record UEdGraph =
  GraphName :: FString
  Nodes :: "addr option list"

record FBPVariableDescription =
  VarName :: FName
  VarType :: FEdGraphPinType
  Category :: FString
  PropertyFlags :: "64 word"
  VarDefaultValue :: FString

record USCS_Node =
  VariableName :: FName
  ComponentTemplate :: "UObject option"

text \<open>\<open>SimpleConstructionScript\<close> is a pointer to the construction script; what is read
  of it is the array \<open>GetAllNodes()\<close> returns.\<close>

record UBlueprint =
  BPName :: FString
  BPPathName :: FString
  ParentClass :: "UObject option"
  GeneratedClass :: "UObject option"
  UbergraphPages :: "addr option list"
  FunctionGraphs :: "addr option list"
  NewVariables :: "FBPVariableDescription list"
  SimpleConstructionScript :: "addr option list option"

record store =
  blueprint_at :: "addr \<Rightarrow> UBlueprint"
  graph_at :: "addr \<Rightarrow> UEdGraph"
  node_at :: "addr \<Rightarrow> UEdGraphNode"
  pin_at :: "addr \<Rightarrow> UEdGraphPin"
  scs_node_at :: "addr \<Rightarrow> USCS_Node"

section \<open>The JSON document\<close>

text \<open>An object keeps its fields in insertion order; setting a field that exists replaces
  its value (\<open>AList.update\<close>).\<close>

datatype json =
  JString FString
  | JNumber int
  | JBool bool
  | JArray "json list"
  | JObject "(FString \<times> json) list"

definition SetField :: "FString \<Rightarrow> json \<Rightarrow> (FString \<times> json) list \<Rightarrow> (FString \<times> json) list" where
  "SetField k v obj = AList.update k v obj"

text \<open>Constants and services of the engine that the exporter uses and the repository does
  not define: the schema's pin categories, the property flag, the class path of
  blueprints, the JSON writer and the file helper, which returns whether the file was
  saved together with the file system after the call.\<close>

record 'fs engine =
  PC_Exec :: FName
  PC_Object :: FName
  CPF_ExposeOnSpawn :: "64 word"
  BlueprintClassPath :: FString
  JsonSerialize :: "json \<Rightarrow> FString"
  SaveStringToFile :: "FString \<Rightarrow> FString \<Rightarrow> 'fs \<Rightarrow> bool \<times> 'fs"

section \<open>Errors and loops\<close>

text \<open>Dereferencing a null pointer is the one way the exporter's code can fail. A range
  loop over an array threads the loop's variables through the body and stops at the first
  failure.\<close>

datatype error = NullDereference

fun for_each :: "'a list \<Rightarrow> ('a \<Rightarrow> 's \<Rightarrow> error + 's) \<Rightarrow> 's \<Rightarrow> error + 's" where
  "for_each [] body s = Inr s"
| "for_each (x # xs) body s =
     (case body x s of Inl e \<Rightarrow> Inl e | Inr s' \<Rightarrow> for_each xs body s')"

text \<open>\<open>Cast<T>(Node)\<close>: null for a null pointer and for a node that is not a \<open>T\<close>.\<close>

definition Cast :: "store \<Rightarrow> K2Class \<Rightarrow> addr option \<Rightarrow> addr option" where
  "Cast h c Node =
     (case Node of
        None \<Rightarrow> None
      | Some n \<Rightarrow> if c \<in> set (NodeBases (node_at h n)) then Some n else None)"

text \<open>\<open>TArray::AddUnique\<close>: appends the element unless the array holds it already.\<close>

definition AddUnique :: "'a list \<Rightarrow> 'a \<Rightarrow> 'a list" where
  "AddUnique xs x = (if x \<in> set xs then xs else xs @ [x])"

section \<open>Helper functions\<close>

definition PinTypeToString :: "FEdGraphPinType \<Rightarrow> FString" where
  "PinTypeToString T =
     (let TypeString = FName_ToString (PinCategory T);
          TypeString = (case PinSubCategoryObject T of
                          Some obj \<Rightarrow> TypeString @ (''<'' @ ObjName obj @ ''>'')
                        | None \<Rightarrow> TypeString);
          TypeString = (if IsArray T then ''Array<'' @ TypeString @ ''>'' else TypeString)
      in TypeString)"

definition NodeTypeToString :: "store \<Rightarrow> addr option \<Rightarrow> FString" where
  "NodeTypeToString h Node =
     (case Node of
        None \<Rightarrow> ''Unknown''
      | Some n \<Rightarrow>
          if Cast h K2Node_Event Node \<noteq> None then ''Event''
          else if Cast h K2Node_FunctionEntry Node \<noteq> None then ''FunctionEntry''
          else if Cast h K2Node_CallFunction Node \<noteq> None then ''CallFunction''
          else if Cast h K2Node_VariableGet Node \<noteq> None then ''VariableGet''
          else if Cast h K2Node_VariableSet Node \<noteq> None then ''VariableSet''
          else NodeClassName (node_at h n))"

definition GetNodeCategory :: "store \<Rightarrow> addr option \<Rightarrow> FString" where
  "GetNodeCategory h Node =
     (case Cast h K2Node Node of
        Some k \<Rightarrow> MenuCategory (node_at h k)
      | None \<Rightarrow> '''')"

definition GetConnectedNodes :: "store \<Rightarrow> addr option \<Rightarrow> error + addr option list" where
  "GetConnectedNodes h Node =
     (case Node of
        None \<Rightarrow> Inl NullDereference
      | Some n \<Rightarrow>
          for_each (Pins (node_at h n))
            (\<lambda>Pin ConnectedNodes.
               case Pin of
                 None \<Rightarrow> Inr ConnectedNodes
               | Some p \<Rightarrow>
                   if Direction (pin_at h p) = EGPD_Output then
                     for_each (LinkedTo (pin_at h p))
                       (\<lambda>LinkedPin ConnectedNodes.
                          case LinkedPin of
                            None \<Rightarrow> Inr ConnectedNodes
                          | Some q \<Rightarrow>
                              (case OwningNode (pin_at h q) of
                                 None \<Rightarrow> Inr ConnectedNodes
                               | Some m \<Rightarrow> Inr (AddUnique ConnectedNodes (Some m))))
                       ConnectedNodes
                   else Inr ConnectedNodes)
            [])"

section \<open>Serialization functions\<close>

definition SerializePin :: "store \<Rightarrow> addr option \<Rightarrow> error + json" where
  "SerializePin h Pin =
     (case Pin of
        None \<Rightarrow> Inl NullDereference
      | Some p \<Rightarrow>
          let P = pin_at h p;
              PinObject = SetField ''name'' (JString (PinName P)) [];
              PinObject = SetField ''display_name'' (JString (PinDisplayName P)) PinObject;
              PinObject = SetField ''direction''
                (JString (if Direction P = EGPD_Input then ''input'' else ''output'')) PinObject;
              PinObject = SetField ''type'' (JString (PinTypeToString (PinType P))) PinObject;
              PinObject = (if DefaultValue P \<noteq> []
                           then SetField ''default_value'' (JString (DefaultValue P)) PinObject
                           else PinObject)
          in Inr (JObject PinObject))"

definition SerializeNode :: "store \<Rightarrow> addr option \<Rightarrow> error + json" where
  "SerializeNode h Node =
     (case Node of
        None \<Rightarrow> Inl NullDereference
      | Some n \<Rightarrow>
          let N = node_at h n;
              NodeObject = SetField ''id'' (JString (NodeName N)) [];
              NodeObject = SetField ''type'' (JString (NodeTypeToString h Node)) NodeObject;
              NodeObject = SetField ''title'' (JString (NodeTitle N)) NodeObject;
              NodeObject = SetField ''category'' (JString (GetNodeCategory h Node)) NodeObject;
              PosObject = SetField ''x'' (JNumber (sint (NodePosX N))) [];
              PosObject = SetField ''y'' (JNumber (sint (NodePosY N))) PosObject;
              NodeObject = SetField ''position'' (JObject PosObject) NodeObject
          in
          (case for_each (Pins N)
                  (\<lambda>Pin PinsArray.
                     if Pin \<noteq> None then
                       (case SerializePin h Pin of
                          Inl e \<Rightarrow> Inl e
                        | Inr j \<Rightarrow> Inr (PinsArray @ [j]))
                     else Inr PinsArray)
                  [] of
             Inl e \<Rightarrow> Inl e
           | Inr PinsArray \<Rightarrow>
              let NodeObject = SetField ''pins'' (JArray PinsArray) NodeObject in
              (case GetConnectedNodes h Node of
                 Inl e \<Rightarrow> Inl e
               | Inr ConnectedNodes \<Rightarrow>
                   (case for_each ConnectedNodes
                           (\<lambda>ConnectedNode ConnectionsArray.
                              case ConnectedNode of
                                None \<Rightarrow> Inl NullDereference
                              | Some m \<Rightarrow>
                                  Inr (ConnectionsArray @ [JString (NodeName (node_at h m))]))
                           [] of
                      Inl e \<Rightarrow> Inl e
                    | Inr ConnectionsArray \<Rightarrow>
                        Inr (JObject (SetField ''connections'' (JArray ConnectionsArray)
                                        NodeObject))))))"

definition SerializeGraph :: "store \<Rightarrow> addr option \<Rightarrow> error + json" where
  "SerializeGraph h Graph =
     (case Graph of
        None \<Rightarrow> Inl NullDereference
      | Some g \<Rightarrow>
          let G = graph_at h g;
              GraphObject = SetField ''name'' (JString (GraphName G)) []
          in
          (case for_each (Nodes G)
                  (\<lambda>Node NodesArray.
                     if Node \<noteq> None then
                       (case SerializeNode h Node of
                          Inl e \<Rightarrow> Inl e
                        | Inr j \<Rightarrow> Inr (NodesArray @ [j]))
                     else Inr NodesArray)
                  [] of
             Inl e \<Rightarrow> Inl e
           | Inr NodesArray \<Rightarrow>
               Inr (JObject (SetField ''nodes'' (JArray NodesArray) GraphObject))))"

definition SerializeVariables :: "'fs engine \<Rightarrow> store \<Rightarrow> addr option \<Rightarrow> error + json list" where
  "SerializeVariables K h Blueprint =
     (case Blueprint of
        None \<Rightarrow> Inl NullDereference
      | Some b \<Rightarrow>
          for_each (NewVariables (blueprint_at h b))
            (\<lambda>Variable VariablesArray.
               let VarObject = SetField ''name'' (JString (FName_ToString (VarName Variable))) [];
                   VarObject = SetField ''type'' (JString (PinTypeToString (VarType Variable)))
                     VarObject;
                   VarObject = SetField ''category'' (JString (Category Variable)) VarObject;
                   VarObject = SetField ''is_exposed''
                     (JBool (PropertyFlags Variable AND CPF_ExposeOnSpawn K \<noteq> 0)) VarObject;
                   VarObject = (if VarDefaultValue Variable \<noteq> []
                                then SetField ''default_value''
                                       (JString (VarDefaultValue Variable)) VarObject
                                else VarObject)
               in Inr (VariablesArray @ [JObject VarObject]))
            [])"

definition SerializeFunctions :: "'fs engine \<Rightarrow> store \<Rightarrow> addr option \<Rightarrow> error + json list" where
  "SerializeFunctions K h Blueprint =
     (case Blueprint of
        None \<Rightarrow> Inl NullDereference
      | Some b \<Rightarrow>
          for_each (FunctionGraphs (blueprint_at h b))
            (\<lambda>FunctionGraph FunctionsArray.
               case FunctionGraph of
                 None \<Rightarrow> Inr FunctionsArray
               | Some g \<Rightarrow>
                   let FuncObject = SetField ''name'' (JString (GraphName (graph_at h g))) [] in
                   (case for_each (Nodes (graph_at h g))
                           (\<lambda>Node ParamsArray.
                              case Cast h K2Node_FunctionEntry Node of
                                None \<Rightarrow> Inr ParamsArray
                              | Some EntryNode \<Rightarrow>
                                  for_each (Pins (node_at h EntryNode))
                                    (\<lambda>Pin ParamsArray.
                                       case Pin of
                                         None \<Rightarrow> Inr ParamsArray
                                       | Some p \<Rightarrow>
                                           if Direction (pin_at h p) = EGPD_Output
                                              \<and> PinCategory (PinType (pin_at h p)) \<noteq> PC_Exec K
                                           then
                                             let ParamObject =
                                                   SetField ''name'' (JString (PinName (pin_at h p))) [];
                                                 ParamObject =
                                                   SetField ''type''
                                                     (JString (PinTypeToString (PinType (pin_at h p))))
                                                     ParamObject
                                             in Inr (ParamsArray @ [JObject ParamObject])
                                           else Inr ParamsArray)
                                    ParamsArray)
                           [] of
                      Inl e \<Rightarrow> Inl e
                    | Inr ParamsArray \<Rightarrow>
                        let FuncObject = SetField ''parameters'' (JArray ParamsArray) FuncObject in
                        (case SerializeGraph h FunctionGraph of
                           Inl e \<Rightarrow> Inl e
                         | Inr GraphObject \<Rightarrow>
                             Inr (FunctionsArray
                                  @ [JObject (SetField ''graph'' GraphObject FuncObject)]))))
            [])"

definition SerializeComponents :: "store \<Rightarrow> addr option \<Rightarrow> error + json list" where
  "SerializeComponents h Blueprint =
     (case Blueprint of
        None \<Rightarrow> Inl NullDereference
      | Some b \<Rightarrow>
          (case SimpleConstructionScript (blueprint_at h b) of
             None \<Rightarrow> Inr []
           | Some AllNodes \<Rightarrow>
               for_each AllNodes
                 (\<lambda>Node ComponentsArray.
                    case Node of
                      None \<Rightarrow> Inr ComponentsArray
                    | Some c \<Rightarrow>
                        (case ComponentTemplate (scs_node_at h c) of
                           None \<Rightarrow> Inr ComponentsArray
                         | Some Template \<Rightarrow>
                             let CompObject =
                                   SetField ''name''
                                     (JString (FName_ToString (VariableName (scs_node_at h c)))) [];
                                 CompObject =
                                   SetField ''class'' (JString (ObjClassName Template)) CompObject
                             in Inr (ComponentsArray @ [JObject CompObject])))
                 []))"

text \<open>The block the dependency pass runs for a class path and again for an object path:
  a path that is not empty and not yet in \<open>UniqueDependencies\<close> is added to the set and
  appended to the array. The loop's variables are the pair of the array and the set.\<close>

definition AddDependency :: "FString \<Rightarrow> json list \<times> FString set \<Rightarrow> json list \<times> FString set" where
  "AddDependency Path st =
     (case st of (DependenciesArray, UniqueDependencies) \<Rightarrow>
        if Path \<noteq> [] \<and> Path \<notin> UniqueDependencies
        then (DependenciesArray @ [JString Path], insert Path UniqueDependencies)
        else st)"

definition ExtractDependencies :: "'fs engine \<Rightarrow> store \<Rightarrow> addr option \<Rightarrow> error + json list" where
  "ExtractDependencies K h Blueprint =
     (case Blueprint of
        None \<Rightarrow> Inl NullDereference
      | Some b \<Rightarrow>
          (case for_each (UbergraphPages (blueprint_at h b))
                  (\<lambda>Graph st.
                     case Graph of
                       None \<Rightarrow> Inr st
                     | Some g \<Rightarrow>
                         for_each (Nodes (graph_at h g))
                           (\<lambda>Node st.
                              case Node of
                                None \<Rightarrow> Inr st
                              | Some n \<Rightarrow>
                                  let st =
                                        (case Cast h K2Node_CallFunction Node of
                                           None \<Rightarrow> st
                                         | Some CallNode \<Rightarrow>
                                             (case MemberParentClass (node_at h CallNode) of
                                                None \<Rightarrow> st
                                              | Some FunctionClass \<Rightarrow>
                                                  AddDependency (ObjPathName FunctionClass) st))
                                  in
                                  for_each (Pins (node_at h n))
                                    (\<lambda>Pin st.
                                       case Pin of
                                         None \<Rightarrow> Inr st
                                       | Some p \<Rightarrow>
                                           if PinCategory (PinType (pin_at h p)) = PC_Object K then
                                             (case DefaultObject (pin_at h p) of
                                                None \<Rightarrow> Inr st
                                              | Some Obj \<Rightarrow>
                                                  Inr (AddDependency (ObjPathName Obj) st))
                                           else Inr st)
                                    st)
                           st)
                  ([], {}) of
             Inl e \<Rightarrow> Inl e
           | Inr (DependenciesArray, UniqueDependencies) \<Rightarrow> Inr DependenciesArray))"

definition SerializeBlueprint :: "'fs engine \<Rightarrow> store \<Rightarrow> addr option \<Rightarrow> error + json" where
  "SerializeBlueprint K h Blueprint =
     (case Blueprint of
        None \<Rightarrow> Inl NullDereference
      | Some b \<Rightarrow>
          let B = blueprint_at h b;
              JsonObject = SetField ''name'' (JString (BPName B)) [];
              JsonObject = SetField ''path'' (JString (BPPathName B)) JsonObject;
              JsonObject = SetField ''class_type'' (JString ''Blueprint'') JsonObject;
              JsonObject = (case ParentClass B of
                              Some c \<Rightarrow> SetField ''parent_class'' (JString (ObjName c)) JsonObject
                            | None \<Rightarrow> JsonObject);
              JsonObject = (case GeneratedClass B of
                              Some c \<Rightarrow> SetField ''generated_class'' (JString (ObjName c)) JsonObject
                            | None \<Rightarrow> JsonObject);
              add_graph = (\<lambda>Graph GraphsArray.
                             if Graph \<noteq> None then
                               (case SerializeGraph h Graph of
                                  Inl e \<Rightarrow> Inl e
                                | Inr j \<Rightarrow> Inr (GraphsArray @ [j]))
                             else Inr GraphsArray)
          in
          (case for_each (UbergraphPages B) add_graph [] of
             Inl e \<Rightarrow> Inl e
           | Inr GraphsArray \<Rightarrow>
              (case for_each (FunctionGraphs B) add_graph GraphsArray of
                 Inl e \<Rightarrow> Inl e
               | Inr GraphsArray \<Rightarrow>
                   let JsonObject = SetField ''graphs'' (JArray GraphsArray) JsonObject in
                   (case SerializeVariables K h Blueprint of
                      Inl e \<Rightarrow> Inl e
                    | Inr Variables \<Rightarrow>
                        let JsonObject = SetField ''variables'' (JArray Variables) JsonObject in
                        (case SerializeFunctions K h Blueprint of
                           Inl e \<Rightarrow> Inl e
                         | Inr Functions \<Rightarrow>
                             let JsonObject = SetField ''functions'' (JArray Functions) JsonObject in
                             (case SerializeComponents h Blueprint of
                                Inl e \<Rightarrow> Inl e
                              | Inr Components \<Rightarrow>
                                  let JsonObject =
                                        SetField ''components'' (JArray Components) JsonObject in
                                  (case ExtractDependencies K h Blueprint of
                                     Inl e \<Rightarrow> Inl e
                                   | Inr Dependencies \<Rightarrow>
                                       Inr (JObject (SetField ''dependencies''
                                                       (JArray Dependencies) JsonObject)))))))))"

section \<open>Main export functions\<close>

text \<open>The log lines the functions write are not part of the model.\<close>

definition ExtractBlueprintData :: "'fs engine \<Rightarrow> store \<Rightarrow> addr option \<Rightarrow> error + FString" where
  "ExtractBlueprintData K h Blueprint =
     (if Blueprint = None then Inr ''{}''
      else
        (case SerializeBlueprint K h Blueprint of
           Inl e \<Rightarrow> Inl e
         | Inr JsonObject \<Rightarrow> Inr (JsonSerialize K JsonObject)))"

definition ExportBlueprintToFile ::
  "'fs engine \<Rightarrow> store \<Rightarrow> addr option \<Rightarrow> FString \<Rightarrow> 'fs \<Rightarrow> error + bool \<times> 'fs" where
  "ExportBlueprintToFile K h Blueprint FilePath fs =
     (if Blueprint = None then Inr (False, fs)
      else
        (case ExtractBlueprintData K h Blueprint of
           Inl e \<Rightarrow> Inl e
         | Inr JsonString \<Rightarrow>
             (case SaveStringToFile K JsonString FilePath fs of
                (saved, fs') \<Rightarrow> if saved then Inr (True, fs') else Inr (False, fs'))))"

section \<open>Blueprint change monitor\<close>

text \<open>
  Modelled from the spec: the change notification source (the engine's asset registry
  with its three multicast delegates) is outside the repository. The spec gives it as
  \<open>subscribe(event_class, handler)\<close>, \<open>unsubscribe_all(handler_owner)\<close> and the
  delivery of an event to the handlers subscribed: a delegate is the list of its bindings
  in subscription order, \<open>AddUObject\<close> appends a binding of an object and one of its
  methods, \<open>RemoveAll\<close> drops every binding of an object, and \<open>Broadcast\<close> runs the
  bound method of every binding in order.

  A callback (\<open>FOnBlueprintChanged\<close>) is unbound (\<open>None\<close>) or bound to a function,
  named by a number; running it is recorded in the world's trace \<open>invoked\<close>, with the
  blueprint it was given. \<open>Asset\<close> is \<open>Cast<UBlueprint>(AssetData.GetAsset())\<close>.
\<close>

type_synonym callback = nat

datatype handler = H_OnAssetAdded | H_OnAssetRemoved | H_OnAssetModified

type_synonym delegate = "(addr \<times> handler) list"

record UBlueprintChangeMonitor =
  OnBlueprintChangedDelegate :: "callback option"

record FAssetData =
  AssetClassPath :: FString
  Asset :: "addr option"

record world =
  OnAssetAddedEvent :: delegate
  OnAssetRemovedEvent :: delegate
  OnAssetUpdatedEvent :: delegate
  monitor_at :: "addr \<Rightarrow> UBlueprintChangeMonitor"
  invoked :: "(callback \<times> addr) list"

definition AddUObject :: "delegate \<Rightarrow> addr \<Rightarrow> handler \<Rightarrow> delegate" where
  "AddUObject d obj m = d @ [(obj, m)]"

definition RemoveAll :: "delegate \<Rightarrow> addr \<Rightarrow> delegate" where
  "RemoveAll d obj = filter (\<lambda>b. fst b \<noteq> obj) d"

definition ExecuteIfBound :: "callback option \<Rightarrow> addr \<Rightarrow> world \<Rightarrow> world" where
  "ExecuteIfBound d Blueprint w =
     (case d of
        None \<Rightarrow> w
      | Some f \<Rightarrow> w\<lparr>invoked := invoked w @ [(f, Blueprint)]\<rparr>)"

definition StartMonitoring :: "addr \<Rightarrow> callback option \<Rightarrow> world \<Rightarrow> world" where
  "StartMonitoring this OnChanged w =
     (let w = w\<lparr>monitor_at := (monitor_at w)
                 (this := (monitor_at w this)\<lparr>OnBlueprintChangedDelegate := OnChanged\<rparr>)\<rparr>;
          w = w\<lparr>OnAssetAddedEvent := AddUObject (OnAssetAddedEvent w) this H_OnAssetAdded\<rparr>;
          w = w\<lparr>OnAssetRemovedEvent := AddUObject (OnAssetRemovedEvent w) this H_OnAssetRemoved\<rparr>;
          w = w\<lparr>OnAssetUpdatedEvent := AddUObject (OnAssetUpdatedEvent w) this H_OnAssetModified\<rparr>
      in w)"

definition StopMonitoring :: "addr \<Rightarrow> world \<Rightarrow> world" where
  "StopMonitoring this w =
     (let w = w\<lparr>OnAssetAddedEvent := RemoveAll (OnAssetAddedEvent w) this\<rparr>;
          w = w\<lparr>OnAssetRemovedEvent := RemoveAll (OnAssetRemovedEvent w) this\<rparr>;
          w = w\<lparr>OnAssetUpdatedEvent := RemoveAll (OnAssetUpdatedEvent w) this\<rparr>
      in w)"

definition OnAssetAdded :: "'fs engine \<Rightarrow> addr \<Rightarrow> FAssetData \<Rightarrow> world \<Rightarrow> world" where
  "OnAssetAdded K this AssetData w =
     (if AssetClassPath AssetData = BlueprintClassPath K then
        (case Asset AssetData of
           Some Blueprint \<Rightarrow>
             ExecuteIfBound (OnBlueprintChangedDelegate (monitor_at w this)) Blueprint w
         | None \<Rightarrow> w)
      else w)"

definition OnAssetRemoved :: "'fs engine \<Rightarrow> addr \<Rightarrow> FAssetData \<Rightarrow> world \<Rightarrow> world" where
  "OnAssetRemoved K this AssetData w = w"

definition OnAssetModified :: "'fs engine \<Rightarrow> addr \<Rightarrow> FAssetData \<Rightarrow> world \<Rightarrow> world" where
  "OnAssetModified K this AssetData w =
     (if AssetClassPath AssetData = BlueprintClassPath K then
        (case Asset AssetData of
           Some Blueprint \<Rightarrow>
             ExecuteIfBound (OnBlueprintChangedDelegate (monitor_at w this)) Blueprint w
         | None \<Rightarrow> w)
      else w)"

fun run_handler :: "'fs engine \<Rightarrow> addr \<times> handler \<Rightarrow> FAssetData \<Rightarrow> world \<Rightarrow> world" where
  "run_handler K (this, H_OnAssetAdded) AssetData w = OnAssetAdded K this AssetData w"
| "run_handler K (this, H_OnAssetRemoved) AssetData w = OnAssetRemoved K this AssetData w"
| "run_handler K (this, H_OnAssetModified) AssetData w = OnAssetModified K this AssetData w"

fun Broadcast :: "'fs engine \<Rightarrow> delegate \<Rightarrow> FAssetData \<Rightarrow> world \<Rightarrow> world" where
  "Broadcast K [] AssetData w = w"
| "Broadcast K (b # bs) AssetData w = Broadcast K bs AssetData (run_handler K b AssetData w)"

text \<open>The three events of the notification source.\<close>

definition asset_added :: "'fs engine \<Rightarrow> FAssetData \<Rightarrow> world \<Rightarrow> world" where
  "asset_added K AssetData w = Broadcast K (OnAssetAddedEvent w) AssetData w"

definition asset_removed :: "'fs engine \<Rightarrow> FAssetData \<Rightarrow> world \<Rightarrow> world" where
  "asset_removed K AssetData w = Broadcast K (OnAssetRemovedEvent w) AssetData w"

definition asset_updated :: "'fs engine \<Rightarrow> FAssetData \<Rightarrow> world \<Rightarrow> world" where
  "asset_updated K AssetData w = Broadcast K (OnAssetUpdatedEvent w) AssetData w"

text \<open>The spec's two states of a monitor: \<open>Idle\<close> (no subscription) and monitoring.\<close>

definition subscriptions :: "delegate \<Rightarrow> addr \<Rightarrow> delegate" where
  "subscriptions d this = filter (\<lambda>b. fst b = this) d"

definition Idle :: "world \<Rightarrow> addr \<Rightarrow> bool" where
  "Idle w this =
     (subscriptions (OnAssetAddedEvent w) this = []
      \<and> subscriptions (OnAssetRemovedEvent w) this = []
      \<and> subscriptions (OnAssetUpdatedEvent w) this = [])"

section \<open>What the document holds\<close>

text \<open>
  The definitions of this section say, without loops and without failure, what the
  spec's contracts (4.1 to 4.6) put into the document; the theorems below show that the
  functions above return exactly this, for every store.

  The elements of an array of pointers that are not null, in order:
\<close>

fun non_null :: "'a option list \<Rightarrow> 'a list" where
  "non_null [] = []"
| "non_null (None # xs) = non_null xs"
| "non_null (Some a # xs) = a # non_null xs"

text \<open>First-seen order, de-duplicated: every element is kept where it occurs first.\<close>

fun first_seen :: "'a list \<Rightarrow> 'a list" where
  "first_seen [] = []"
| "first_seen (x # xs) = x # filter (\<lambda>y. y \<noteq> x) (first_seen xs)"

text \<open>The value of a field of an object, if the object has the field.\<close>

definition field :: "json \<Rightarrow> FString \<Rightarrow> json option" where
  "field j k = (case j of JObject fs \<Rightarrow> map_of fs k | _ \<Rightarrow> None)"

definition result_field :: "error + json \<Rightarrow> FString \<Rightarrow> json option" where
  "result_field r k = (case r of Inl e \<Rightarrow> None | Inr doc \<Rightarrow> field doc k)"

text \<open>4.2, the record of a port.\<close>

definition pin_record :: "store \<Rightarrow> addr \<Rightarrow> json" where
  "pin_record h p =
     JObject ([(''name'', JString (PinName (pin_at h p))),
               (''display_name'', JString (PinDisplayName (pin_at h p))),
               (''direction'',
                JString (if Direction (pin_at h p) = EGPD_Input then ''input'' else ''output'')),
               (''type'', JString (PinTypeToString (PinType (pin_at h p))))]
              @ (if DefaultValue (pin_at h p) = [] then []
                 else [(''default_value'', JString (DefaultValue (pin_at h p)))]))"

text \<open>4.3: the nodes at the far end of the wires that leave a pin, and those reached through
  the output pins of a node, in the order of the pins and of their wires; the record of a
  node.\<close>

definition linked_nodes :: "store \<Rightarrow> addr \<Rightarrow> addr list" where
  "linked_nodes h p =
     concat (map (\<lambda>q. case OwningNode (pin_at h q) of None \<Rightarrow> [] | Some m \<Rightarrow> [m])
               (non_null (LinkedTo (pin_at h p))))"

definition wire_targets :: "store \<Rightarrow> addr \<Rightarrow> addr list" where
  "wire_targets h n =
     concat (map (linked_nodes h)
               (filter (\<lambda>p. Direction (pin_at h p) = EGPD_Output) (non_null (Pins (node_at h n)))))"

definition node_record :: "store \<Rightarrow> addr \<Rightarrow> json" where
  "node_record h n =
     JObject [(''id'', JString (NodeName (node_at h n))),
              (''type'', JString (NodeTypeToString h (Some n))),
              (''title'', JString (NodeTitle (node_at h n))),
              (''category'', JString (GetNodeCategory h (Some n))),
              (''position'', JObject [(''x'', JNumber (sint (NodePosX (node_at h n)))),
                                      (''y'', JNumber (sint (NodePosY (node_at h n))))]),
              (''pins'', JArray (map (pin_record h) (non_null (Pins (node_at h n))))),
              (''connections'',
               JArray (map (\<lambda>m. JString (NodeName (node_at h m))) (first_seen (wire_targets h n))))]"

text \<open>4.4, the record of a graph.\<close>

definition graph_record :: "store \<Rightarrow> addr \<Rightarrow> json" where
  "graph_record h g =
     JObject [(''name'', JString (GraphName (graph_at h g))),
              (''nodes'', JArray (map (node_record h) (non_null (Nodes (graph_at h g)))))]"

text \<open>4.6: the records of a variable, of a function graph (its parameters are the
  output-direction, non-exec ports of its entry nodes) and of a component.\<close>

definition variable_record :: "'fs engine \<Rightarrow> FBPVariableDescription \<Rightarrow> json" where
  "variable_record K v =
     JObject ([(''name'', JString (VarName v)),
               (''type'', JString (PinTypeToString (VarType v))),
               (''category'', JString (Category v)),
               (''is_exposed'', JBool (PropertyFlags v AND CPF_ExposeOnSpawn K \<noteq> 0))]
              @ (if VarDefaultValue v = [] then []
                 else [(''default_value'', JString (VarDefaultValue v))]))"

definition is_parameter :: "'fs engine \<Rightarrow> store \<Rightarrow> addr \<Rightarrow> bool" where
  "is_parameter K h p =
     (Direction (pin_at h p) = EGPD_Output \<and> PinCategory (PinType (pin_at h p)) \<noteq> PC_Exec K)"

definition parameter_record :: "store \<Rightarrow> addr \<Rightarrow> json" where
  "parameter_record h p =
     JObject [(''name'', JString (PinName (pin_at h p))),
              (''type'', JString (PinTypeToString (PinType (pin_at h p))))]"

definition entry_nodes :: "store \<Rightarrow> addr \<Rightarrow> addr list" where
  "entry_nodes h g =
     filter (\<lambda>n. K2Node_FunctionEntry \<in> set (NodeBases (node_at h n)))
       (non_null (Nodes (graph_at h g)))"

definition entry_parameters :: "'fs engine \<Rightarrow> store \<Rightarrow> addr \<Rightarrow> json list" where
  "entry_parameters K h e =
     map (parameter_record h) (filter (is_parameter K h) (non_null (Pins (node_at h e))))"

definition function_record :: "'fs engine \<Rightarrow> store \<Rightarrow> addr \<Rightarrow> json" where
  "function_record K h g =
     JObject [(''name'', JString (GraphName (graph_at h g))),
              (''parameters'', JArray (concat (map (entry_parameters K h) (entry_nodes h g)))),
              (''graph'', graph_record h g)]"

definition component_record :: "store \<Rightarrow> addr \<Rightarrow> json list" where
  "component_record h c =
     (case ComponentTemplate (scs_node_at h c) of
        None \<Rightarrow> []
      | Some Template \<Rightarrow>
          [JObject [(''name'', JString (VariableName (scs_node_at h c))),
                    (''class'', JString (ObjClassName Template))]])"

text \<open>4.5: the paths a node refers to, the owning class of the function it calls before
  the default objects of its object-typed pins, and the paths met on the walk over the
  top-level graphs of a blueprint, empty paths left out.\<close>

definition class_paths :: "store \<Rightarrow> addr \<Rightarrow> FString list" where
  "class_paths h n =
     (if K2Node_CallFunction \<in> set (NodeBases (node_at h n)) then
        (case MemberParentClass (node_at h n) of
           None \<Rightarrow> []
         | Some FunctionClass \<Rightarrow> [ObjPathName FunctionClass])
      else [])"

definition pin_paths :: "'fs engine \<Rightarrow> store \<Rightarrow> addr \<Rightarrow> FString list" where
  "pin_paths K h p =
     (if PinCategory (PinType (pin_at h p)) = PC_Object K then
        (case DefaultObject (pin_at h p) of None \<Rightarrow> [] | Some Obj \<Rightarrow> [ObjPathName Obj])
      else [])"

definition node_paths :: "'fs engine \<Rightarrow> store \<Rightarrow> addr \<Rightarrow> FString list" where
  "node_paths K h n =
     class_paths h n @ concat (map (pin_paths K h) (non_null (Pins (node_at h n))))"

definition encountered_paths :: "'fs engine \<Rightarrow> store \<Rightarrow> addr \<Rightarrow> FString list" where
  "encountered_paths K h b =
     filter (\<lambda>Path. Path \<noteq> [])
       (concat (map (node_paths K h)
          (concat (map (\<lambda>g. non_null (Nodes (graph_at h g)))
             (non_null (UbergraphPages (blueprint_at h b)))))))"

text \<open>The loop variables of the dependency pass when the paths \<open>ds\<close> have been recorded.\<close>

definition dep_state :: "FString list \<Rightarrow> json list \<times> FString set" where
  "dep_state ds = (map JString ds, set ds)"

text \<open>4.6, the document of a blueprint.\<close>

definition graph_records :: "store \<Rightarrow> addr \<Rightarrow> json list" where
  "graph_records h b =
     map (graph_record h)
       (non_null (UbergraphPages (blueprint_at h b)) @ non_null (FunctionGraphs (blueprint_at h b)))"

definition blueprint_record :: "'fs engine \<Rightarrow> store \<Rightarrow> addr \<Rightarrow> json" where
  "blueprint_record K h b =
     JObject ([(''name'', JString (BPName (blueprint_at h b))),
               (''path'', JString (BPPathName (blueprint_at h b))),
               (''class_type'', JString ''Blueprint'')]
              @ (case ParentClass (blueprint_at h b) of
                   None \<Rightarrow> []
                 | Some c \<Rightarrow> [(''parent_class'', JString (ObjName c))])
              @ (case GeneratedClass (blueprint_at h b) of
                   None \<Rightarrow> []
                 | Some c \<Rightarrow> [(''generated_class'', JString (ObjName c))])
              @ [(''graphs'', JArray (graph_records h b)),
                 (''variables'', JArray (map (variable_record K) (NewVariables (blueprint_at h b)))),
                 (''functions'',
                  JArray (map (function_record K h) (non_null (FunctionGraphs (blueprint_at h b))))),
                 (''components'',
                  JArray (case SimpleConstructionScript (blueprint_at h b) of
                            None \<Rightarrow> []
                          | Some AllNodes \<Rightarrow> concat (map (component_record h) (non_null AllNodes)))),
                 (''dependencies'', JArray (map JString (first_seen (encountered_paths K h b))))])"

text \<open>4.3, the classification: the kinds of the closed taxonomy, the engine class that
  stands for each in the order in which they are tested, the first match winning, and the
  type string the document carries for each kind.\<close>

datatype node_kind =
  Event | FunctionEntry | CallExternalFunction | VariableRead | VariableWrite | Other FString

definition taxonomy :: "(K2Class \<times> node_kind) list" where
  "taxonomy =
     [(K2Node_Event, Event),
      (K2Node_FunctionEntry, FunctionEntry),
      (K2Node_CallFunction, CallExternalFunction),
      (K2Node_VariableGet, VariableRead),
      (K2Node_VariableSet, VariableWrite)]"

definition classify :: "UEdGraphNode \<Rightarrow> node_kind" where
  "classify N =
     (case find (\<lambda>entry. fst entry \<in> set (NodeBases N)) taxonomy of
        Some entry \<Rightarrow> snd entry
      | None \<Rightarrow> Other (NodeClassName N))"

fun type_string :: "node_kind \<Rightarrow> FString" where
  "type_string Event = ''Event''"
| "type_string FunctionEntry = ''FunctionEntry''"
| "type_string CallExternalFunction = ''CallFunction''"
| "type_string VariableRead = ''VariableGet''"
| "type_string VariableWrite = ''VariableSet''"
| "type_string (Other cls) = cls"

text \<open>4.7: the callback runs a binding causes when an event \<open>AssetData\<close> reaches it,
  the monitors being \<open>mon\<close>.\<close>

definition calls ::
  "'fs engine \<Rightarrow> (addr \<Rightarrow> UBlueprintChangeMonitor) \<Rightarrow> FAssetData \<Rightarrow> addr \<times> handler
   \<Rightarrow> (callback \<times> addr) list" where
  "calls K mon AssetData b =
     (if snd b = H_OnAssetRemoved then []
      else if AssetClassPath AssetData = BlueprintClassPath K then
        (case Asset AssetData of
           None \<Rightarrow> []
         | Some Blueprint \<Rightarrow>
             (case OnBlueprintChangedDelegate (mon (fst b)) of
                None \<Rightarrow> []
              | Some f \<Rightarrow> [(f, Blueprint)]))
      else [])"

section \<open>A blueprint to run the exporter on\<close>

text \<open>
  The blueprint \<open>Door\<close> at address 0 has the event graph 0 and the function graphs 4,
  2 and 3, with null entries in its arrays. In the event graph the output pin 10 of the
  event node \<open>N1\<close> is wired to the input pins 20 and 30 of the call nodes \<open>N2\<close> and
  \<open>N3\<close>; both call a function of the class at path \<open>A\<close>, and their object pins 21
  and 31 hold the objects at paths \<open>B\<close> and \<open>C\<close>. Node 4 is a comment, not a K2 node.
  The function graph 4 has the two entry nodes 6 and 7, the function graph 2 the entry
  node 8, and the function graph 3 no entry node.
\<close>

definition ex_engine :: "unit engine" where
  "ex_engine =
     \<lparr>PC_Exec = ''exec'', PC_Object = ''object'', CPF_ExposeOnSpawn = 0x1000000000000,
      BlueprintClassPath = ''/Script/Engine.Blueprint'',
      JsonSerialize = (\<lambda>j. ''<document>''),
      SaveStringToFile = (\<lambda>text path fs. (True, fs))\<rparr>"

definition ex_object :: "FString \<Rightarrow> UObject" where
  "ex_object path = \<lparr>ObjName = path, ObjPathName = path, ObjClassName = ''Class''\<rparr>"

definition ex_type :: "FName \<Rightarrow> FEdGraphPinType" where
  "ex_type c = \<lparr>PinCategory = c, PinSubCategoryObject = None, IsArray = False\<rparr>"

definition ex_make_pin ::
  "FString \<Rightarrow> EEdGraphPinDirection \<Rightarrow> FName \<Rightarrow> UObject option \<Rightarrow> addr option list \<Rightarrow> addr
   \<Rightarrow> UEdGraphPin" where
  "ex_make_pin name dir c obj links owner =
     \<lparr>PinName = name, PinDisplayName = name, Direction = dir, PinType = ex_type c,
      DefaultValue = [], DefaultObject = obj, LinkedTo = links, OwningNode = Some owner\<rparr>"

definition ex_pin :: "addr \<Rightarrow> UEdGraphPin" where
  "ex_pin a =
     (if a = 10 then ex_make_pin ''then'' EGPD_Output ''exec'' None [Some 20, Some 30] 5
      else if a = 20 then ex_make_pin ''execute'' EGPD_Input ''exec'' None [Some 10] 2
      else if a = 21 then
        ex_make_pin ''Target'' EGPD_Input ''object'' (Some (ex_object ''B'')) [] 2
      else if a = 30 then ex_make_pin ''execute'' EGPD_Input ''exec'' None [Some 10] 3
      else if a = 31 then
        ex_make_pin ''Target'' EGPD_Input ''object'' (Some (ex_object ''C'')) [] 3
      else if a = 60 then ex_make_pin ''then'' EGPD_Output ''exec'' None [] 6
      else if a = 61 then ex_make_pin ''Speed'' EGPD_Output ''float'' None [] 6
      else if a = 62 then ex_make_pin ''Unused'' EGPD_Input ''int'' None [] 6
      else if a = 70 then ex_make_pin ''Count'' EGPD_Output ''int'' None [] 7
      else if a = 80 then ex_make_pin ''then'' EGPD_Output ''exec'' None [] 8
      else (ex_make_pin ''Force'' EGPD_Output ''bool'' None [] 8)\<lparr>DefaultValue := ''true''\<rparr>)"

definition ex_make_node ::
  "FString \<Rightarrow> FString \<Rightarrow> K2Class list \<Rightarrow> FString \<Rightarrow> addr option list \<Rightarrow> UObject option
   \<Rightarrow> UEdGraphNode" where
  "ex_make_node name cls bases category pins parent =
     \<lparr>NodeName = name, NodeClassName = cls, NodeBases = bases, NodeTitle = name,
      MenuCategory = category, NodePosX = 0, NodePosY = - 16, Pins = pins,
      MemberParentClass = parent\<rparr>"

definition ex_node :: "addr \<Rightarrow> UEdGraphNode" where
  "ex_node a =
     (if a = 5 then
        ex_make_node ''N1'' ''K2Node_Event'' [K2Node_Event, K2Node] ''Events'' [Some 10] None
      else if a = 2 then
        ex_make_node ''N2'' ''K2Node_CallFunction'' [K2Node_CallFunction, K2Node] ''Calls''
          [Some 20, None, Some 21] (Some (ex_object ''A''))
      else if a = 3 then
        ex_make_node ''N3'' ''K2Node_CallFunction'' [K2Node_CallFunction, K2Node] ''Calls''
          [Some 30, Some 31] (Some (ex_object ''A''))
      else if a = 4 then
        ex_make_node ''Note'' ''EdGraphNode_Comment'' [] ''Comments'' [] None
      else if a = 6 then
        ex_make_node ''Entry'' ''K2Node_FunctionEntry'' [K2Node_FunctionEntry, K2Node] []
          [Some 60, Some 61, None, Some 62] None
      else if a = 7 then
        ex_make_node ''Entry2'' ''K2Node_FunctionEntry'' [K2Node_FunctionEntry, K2Node] []
          [Some 70] None
      else
        ex_make_node ''Entry3'' ''K2Node_FunctionEntry'' [K2Node_FunctionEntry, K2Node] []
          [Some 80, None, Some 81] None)"

definition ex_graph :: "addr \<Rightarrow> UEdGraph" where
  "ex_graph a =
     (if a = 0 then \<lparr>GraphName = ''EventGraph'', Nodes = [Some 5, None, Some 2, Some 3, Some 4]\<rparr>
      else if a = 2 then \<lparr>GraphName = ''Reset'', Nodes = [None, Some 8]\<rparr>
      else if a = 3 then \<lparr>GraphName = ''Helper'', Nodes = [Some 4]\<rparr>
      else \<lparr>GraphName = ''GetSpeed'', Nodes = [Some 6, None, Some 7]\<rparr>)"

definition ex_blueprint :: UBlueprint where
  "ex_blueprint =
     \<lparr>BPName = ''Door'', BPPathName = ''/Game/Door.Door'',
      ParentClass = Some (ex_object ''Actor''), GeneratedClass = None,
      UbergraphPages = [Some 0, None], FunctionGraphs = [None, Some 4, Some 2, Some 3],
      NewVariables =
        [\<lparr>VarName = ''Speed'', VarType = ex_type ''float'', Category = ''Default'',
          PropertyFlags = 0, VarDefaultValue = []\<rparr>],
      SimpleConstructionScript = None\<rparr>"

definition ex_store :: store where
  "ex_store =
     \<lparr>blueprint_at = (\<lambda>a. ex_blueprint), graph_at = ex_graph, node_at = ex_node,
      pin_at = ex_pin,
      scs_node_at = (\<lambda>a. \<lparr>VariableName = ''Mesh'', ComponentTemplate = None\<rparr>)\<rparr>"

text \<open>A notification source nobody has subscribed to, with monitors whose callback is
  unbound, and the event of a blueprint asset.\<close>

definition ex_world :: world where
  "ex_world =
     \<lparr>OnAssetAddedEvent = [], OnAssetRemovedEvent = [], OnAssetUpdatedEvent = [],
      monitor_at = (\<lambda>a. \<lparr>OnBlueprintChangedDelegate = None\<rparr>), invoked = []\<rparr>"

definition ex_event :: FAssetData where
  "ex_event = \<lparr>AssetClassPath = ''/Script/Engine.Blueprint'', Asset = Some 0\<rparr>"

section \<open>The loops compute the records\<close>

lemma for_each_append:
  assumes "\<And>x acc. x \<in> set xs \<Longrightarrow> body x acc = Inr (acc @ f x)"
  shows "for_each xs body acc = Inr (acc @ concat (map f xs))"
  using assms by (induction xs arbitrary: acc) simp_all

lemma set_first_seen: "set (first_seen xs) = set xs"
  by (induction xs) auto

lemma distinct_first_seen: "distinct (first_seen xs)"
  by (induction xs) auto

lemma foldl_AddUnique: "foldl AddUnique acc xs = acc @ filter (\<lambda>y. y \<notin> set acc) (first_seen xs)"
proof (induction xs arbitrary: acc)
  case Nil
  show ?case by simp
next
  case (Cons x xs)
  show ?case
  proof (cases "x \<in> set acc")
    case True
    have "filter (\<lambda>y. y \<notin> set acc) (filter (\<lambda>y. y \<noteq> x) (first_seen xs))
          = filter (\<lambda>y. y \<notin> set acc) (first_seen xs)"
      using True by (auto intro: filter_cong)
    with True Cons.IH [of acc] show ?thesis by (simp add: AddUnique_def)
  next
    case False
    have "filter (\<lambda>y. y \<notin> set (acc @ [x])) (first_seen xs)
          = filter (\<lambda>y. y \<notin> set acc) (filter (\<lambda>y. y \<noteq> x) (first_seen xs))"
      by (auto intro: filter_cong)
    with False Cons.IH [of "acc @ [x]"] show ?thesis by (simp add: AddUnique_def)
  qed
qed

lemma for_each_AddUnique:
  assumes "\<And>x acc. x \<in> set xs \<Longrightarrow> body x acc = Inr (foldl AddUnique acc (f x))"
  shows "for_each xs body acc = Inr (foldl AddUnique acc (concat (map f xs)))"
  using assms by (induction xs arbitrary: acc) simp_all

lemma first_seen_map_inj:
  "inj_on f (set xs) \<Longrightarrow> first_seen (map f xs) = map f (first_seen xs)"
proof (induction xs)
  case Nil show ?case by simp
next
  case (Cons x xs)
  then have inj: "inj_on f (set xs)" and nx: "\<And>y. y \<in> set xs \<Longrightarrow> (f y \<noteq> f x) = (y \<noteq> x)"
    by (auto simp: inj_on_def)
  have "filter (\<lambda>y. y \<noteq> f x) (map f (first_seen xs)) = map f (filter (\<lambda>y. y \<noteq> x) (first_seen xs))"
    using nx by (auto simp: filter_map comp_def set_first_seen intro!: arg_cong[where f="map f"] filter_cong)
  with Cons.IH[OF inj] show ?case by simp
qed

lemma SerializePin_eq: "SerializePin h (Some p) = Inr (pin_record h p)"
  by (simp add: SerializePin_def pin_record_def SetField_def Let_def)

lemma concat_map_option:
  "concat (map (\<lambda>x. case x of None \<Rightarrow> [] | Some a \<Rightarrow> f a) xs) = concat (map f (non_null xs))"
  by (induction xs rule: non_null.induct) simp_all

lemma concat_map_if:
  "concat (map (\<lambda>x. if P x then f x else []) xs) = concat (map f (filter P xs))"
  by (induction xs) simp_all

lemma linked_loop:
  "for_each (LinkedTo (pin_at h p))
     (\<lambda>LinkedPin ConnectedNodes.
        case LinkedPin of
          None \<Rightarrow> Inr ConnectedNodes
        | Some q \<Rightarrow>
            (case OwningNode (pin_at h q) of
               None \<Rightarrow> Inr ConnectedNodes
             | Some m \<Rightarrow> Inr (AddUnique ConnectedNodes (Some m))))
     acc
   = Inr (foldl AddUnique acc (map Some (linked_nodes h p)))"
proof -
  let ?f = "\<lambda>L. case L of None \<Rightarrow> [] | Some q \<Rightarrow>
                (case OwningNode (pin_at h q) of None \<Rightarrow> [] | Some m \<Rightarrow> [Some m])"
  have "concat (map ?f Ls)
        = map Some (concat (map (\<lambda>q. case OwningNode (pin_at h q) of None \<Rightarrow> [] | Some m \<Rightarrow> [m])
                             (non_null Ls)))" for Ls
    by (induction Ls rule: non_null.induct) (simp_all split: option.splits)
  then have "concat (map ?f (LinkedTo (pin_at h p))) = map Some (linked_nodes h p)"
    by (simp add: linked_nodes_def)
  then show ?thesis
    using for_each_AddUnique [where f = ?f and xs = "LinkedTo (pin_at h p)" and acc = acc]
    by (simp split: option.splits)
qed

lemma GetConnectedNodes_eq:
  "GetConnectedNodes h (Some n) = Inr (map Some (first_seen (wire_targets h n)))"
proof -
  let ?f = "\<lambda>Pin. case Pin of None \<Rightarrow> [] | Some p \<Rightarrow>
                if Direction (pin_at h p) = EGPD_Output then map Some (linked_nodes h p) else []"
  have "concat (map ?f (Pins (node_at h n))) = map Some (wire_targets h n)"
    unfolding wire_targets_def concat_map_option concat_map_if map_concat
    by (simp add: comp_def)
  moreover have "first_seen (map Some xs) = map Some (first_seen xs)" for xs :: "addr list"
    by (rule first_seen_map_inj) simp
  ultimately show ?thesis
    unfolding GetConnectedNodes_def
    using for_each_AddUnique [where f = ?f and xs = "Pins (node_at h n)" and acc = "[]"]
    by (simp add: linked_loop foldl_AddUnique split: option.splits)
qed

lemma pins_loop:
  "for_each Ps
     (\<lambda>Pin PinsArray.
        if Pin \<noteq> None then
          (case SerializePin h Pin of Inl e \<Rightarrow> Inl e | Inr j \<Rightarrow> Inr (PinsArray @ [j]))
        else Inr PinsArray)
     acc
   = Inr (acc @ map (pin_record h) (non_null Ps))"
  using for_each_append [where f = "\<lambda>Pin. case Pin of None \<Rightarrow> [] | Some p \<Rightarrow> [pin_record h p]"
      and xs = Ps and acc = acc]
  by (auto simp: SerializePin_eq concat_map_option split: option.splits
      simp del: not_None_eq)

lemma connections_loop:
  "for_each (map Some ms)
     (\<lambda>ConnectedNode ConnectionsArray.
        case ConnectedNode of
          None \<Rightarrow> Inl NullDereference
        | Some m \<Rightarrow> Inr (ConnectionsArray @ [JString (NodeName (node_at h m))]))
     acc
   = Inr (acc @ map (\<lambda>m. JString (NodeName (node_at h m))) ms)"
  by (induction ms arbitrary: acc) simp_all

lemma SerializeNode_eq: "SerializeNode h (Some n) = Inr (node_record h n)"
  by (simp add: SerializeNode_def node_record_def SetField_def Let_def pins_loop
      GetConnectedNodes_eq connections_loop del: not_None_eq)

lemma nodes_loop:
  "for_each Ns
     (\<lambda>Node NodesArray.
        if Node \<noteq> None then
          (case SerializeNode h Node of Inl e \<Rightarrow> Inl e | Inr j \<Rightarrow> Inr (NodesArray @ [j]))
        else Inr NodesArray)
     acc
   = Inr (acc @ map (node_record h) (non_null Ns))"
  using for_each_append [where f = "\<lambda>Node. case Node of None \<Rightarrow> [] | Some n \<Rightarrow> [node_record h n]"
      and xs = Ns and acc = acc]
  by (auto simp: SerializeNode_eq concat_map_option split: option.splits
      simp del: not_None_eq)

lemma SerializeGraph_eq: "SerializeGraph h (Some g) = Inr (graph_record h g)"
  by (simp add: SerializeGraph_def graph_record_def SetField_def Let_def nodes_loop
      del: not_None_eq)

lemma SerializeVariables_eq:
  "SerializeVariables K h (Some b)
   = Inr (map (variable_record K) (NewVariables (blueprint_at h b)))"
  unfolding SerializeVariables_def
  using for_each_append [where f = "\<lambda>v. [variable_record K v]"
      and xs = "NewVariables (blueprint_at h b)" and acc = "[]"]
  by (simp add: variable_record_def SetField_def Let_def FName_ToString_def)

lemma params_loop:
  "for_each Ps
     (\<lambda>Pin ParamsArray.
        case Pin of
          None \<Rightarrow> Inr ParamsArray
        | Some p \<Rightarrow>
            if Direction (pin_at h p) = EGPD_Output
               \<and> PinCategory (PinType (pin_at h p)) \<noteq> PC_Exec K
            then
              let ParamObject = SetField ''name'' (JString (PinName (pin_at h p))) [];
                  ParamObject =
                    SetField ''type'' (JString (PinTypeToString (PinType (pin_at h p))))
                      ParamObject
              in Inr (ParamsArray @ [JObject ParamObject])
            else Inr ParamsArray)
     acc
   = Inr (acc @ map (parameter_record h) (filter (is_parameter K h) (non_null Ps)))"
proof -
  let ?f = "\<lambda>Pin. case Pin of None \<Rightarrow> []
              | Some p \<Rightarrow> if is_parameter K h p then [parameter_record h p] else []"
  have "concat (map ?f Ps) = map (parameter_record h) (filter (is_parameter K h) (non_null Ps))"
    by (induction Ps rule: non_null.induct) simp_all
  then show ?thesis
    using for_each_append [where f = ?f and xs = Ps and acc = acc]
    by (simp add: is_parameter_def parameter_record_def SetField_def Let_def split: option.splits)
qed

lemma entries_loop:
  "for_each Ns
     (\<lambda>Node ParamsArray.
        case Cast h K2Node_FunctionEntry Node of
          None \<Rightarrow> Inr ParamsArray
        | Some EntryNode \<Rightarrow>
            for_each (Pins (node_at h EntryNode))
              (\<lambda>Pin ParamsArray.
                 case Pin of
                   None \<Rightarrow> Inr ParamsArray
                 | Some p \<Rightarrow>
                     if Direction (pin_at h p) = EGPD_Output
                        \<and> PinCategory (PinType (pin_at h p)) \<noteq> PC_Exec K
                     then
                       let ParamObject = SetField ''name'' (JString (PinName (pin_at h p))) [];
                           ParamObject =
                             SetField ''type'' (JString (PinTypeToString (PinType (pin_at h p))))
                               ParamObject
                       in Inr (ParamsArray @ [JObject ParamObject])
                     else Inr ParamsArray)
              ParamsArray)
     acc
   = Inr (acc @ concat (map (entry_parameters K h)
            (filter (\<lambda>n. K2Node_FunctionEntry \<in> set (NodeBases (node_at h n))) (non_null Ns))))"
proof -
  let ?f = "\<lambda>Node. case Cast h K2Node_FunctionEntry Node of None \<Rightarrow> []
              | Some e \<Rightarrow> entry_parameters K h e"
  have "concat (map ?f Ns) = concat (map (entry_parameters K h)
          (filter (\<lambda>n. K2Node_FunctionEntry \<in> set (NodeBases (node_at h n))) (non_null Ns)))"
    by (induction Ns rule: non_null.induct) (simp_all add: Cast_def)
  then show ?thesis
    using for_each_append [where f = ?f and xs = Ns and acc = acc]
    by (simp add: params_loop entry_parameters_def split: option.splits)
qed

lemma SerializeFunctions_eq:
  "SerializeFunctions K h (Some b)
   = Inr (map (function_record K h) (non_null (FunctionGraphs (blueprint_at h b))))"
proof -
  let ?f = "\<lambda>G. case G of None \<Rightarrow> [] | Some g \<Rightarrow> [function_record K h g]"
  have "concat (map ?f Gs) = map (function_record K h) (non_null Gs)" for Gs
    by (induction Gs rule: non_null.induct) simp_all
  then show ?thesis
    unfolding SerializeFunctions_def
    using for_each_append [where f = ?f and xs = "FunctionGraphs (blueprint_at h b)" and acc = "[]"]
    by (simp add: entries_loop SerializeGraph_eq function_record_def entry_nodes_def
        SetField_def Let_def split: option.splits)
qed

lemma SerializeComponents_eq:
  "SerializeComponents h (Some b)
   = Inr (case SimpleConstructionScript (blueprint_at h b) of
            None \<Rightarrow> []
          | Some AllNodes \<Rightarrow> concat (map (component_record h) (non_null AllNodes)))"
proof (cases "SimpleConstructionScript (blueprint_at h b)")
  case None
  then show ?thesis by (simp add: SerializeComponents_def)
next
  case (Some AllNodes)
  let ?f = "\<lambda>N. case N of None \<Rightarrow> [] | Some c \<Rightarrow> component_record h c"
  have "concat (map ?f Ns) = concat (map (component_record h) (non_null Ns))" for Ns
    by (induction Ns rule: non_null.induct) simp_all
  then show ?thesis
    unfolding SerializeComponents_def
    using Some for_each_append [where f = ?f and xs = AllNodes and acc = "[]"]
    by (simp add: component_record_def SetField_def Let_def FName_ToString_def
        split: option.splits)
qed

lemma AddDependency_dep_state:
  "AddDependency Path (dep_state ds)
   = dep_state (foldl AddUnique ds (filter (\<lambda>P. P \<noteq> []) [Path]))"
  by (simp add: AddDependency_def dep_state_def AddUnique_def)

lemma for_each_deps:
  assumes "\<And>x ds. x \<in> set xs \<Longrightarrow>
             body x (dep_state ds)
             = Inr (dep_state (foldl AddUnique ds (filter (\<lambda>P. P \<noteq> []) (f x))))"
  shows "for_each xs body (dep_state ds)
         = Inr (dep_state (foldl AddUnique ds (filter (\<lambda>P. P \<noteq> []) (concat (map f xs)))))"
  using assms by (induction xs arbitrary: ds) simp_all

lemma pin_step:
  "(if PinCategory (PinType (pin_at h p)) = PC_Object K then
      (case DefaultObject (pin_at h p) of
         None \<Rightarrow> Inr (dep_state ds)
       | Some Obj \<Rightarrow> Inr (AddDependency (ObjPathName Obj) (dep_state ds)))
    else Inr (dep_state ds))
   = Inr (dep_state (foldl AddUnique ds (filter (\<lambda>P. P \<noteq> []) (pin_paths K h p))))"
proof (cases "PinCategory (PinType (pin_at h p)) = PC_Object K")
  case False
  then show ?thesis by (simp add: pin_paths_def)
next
  case True
  show ?thesis
  proof (cases "DefaultObject (pin_at h p)")
    case None
    with True show ?thesis by (simp add: pin_paths_def)
  next
    case (Some Obj)
    with True show ?thesis by (simp add: pin_paths_def AddDependency_dep_state)
  qed
qed

lemma dep_pins_loop:
  "for_each Ps
     (\<lambda>Pin st.
        case Pin of
          None \<Rightarrow> Inr st
        | Some p \<Rightarrow>
            if PinCategory (PinType (pin_at h p)) = PC_Object K then
              (case DefaultObject (pin_at h p) of
                 None \<Rightarrow> Inr st
               | Some Obj \<Rightarrow> Inr (AddDependency (ObjPathName Obj) st))
            else Inr st)
     (dep_state ds)
   = Inr (dep_state (foldl AddUnique ds
            (filter (\<lambda>P. P \<noteq> []) (concat (map (pin_paths K h) (non_null Ps))))))"
proof -
  let ?f = "\<lambda>Pin. case Pin of None \<Rightarrow> [] | Some p \<Rightarrow> pin_paths K h p"
  let ?body = "\<lambda>Pin st.
        case Pin of
          None \<Rightarrow> Inr st
        | Some p \<Rightarrow>
            if PinCategory (PinType (pin_at h p)) = PC_Object K then
              (case DefaultObject (pin_at h p) of
                 None \<Rightarrow> Inr st
               | Some Obj \<Rightarrow> Inr (AddDependency (ObjPathName Obj) st))
            else Inr st"
  have "?body x (dep_state ds)
        = Inr (dep_state (foldl AddUnique ds (filter (\<lambda>P. P \<noteq> []) (?f x))))" for x ds
  proof (cases x)
    case None
    then show ?thesis by simp
  next
    case (Some p)
    then show ?thesis using pin_step [of h p K ds] by simp
  qed
  then have "for_each Ps ?body (dep_state ds)
        = Inr (dep_state (foldl AddUnique ds (filter (\<lambda>P. P \<noteq> []) (concat (map ?f Ps)))))"
    by (rule for_each_deps)
  then show ?thesis by (simp add: concat_map_option)
qed

lemma class_step:
  "(case Cast h K2Node_CallFunction (Some n) of
      None \<Rightarrow> dep_state ds
    | Some CallNode \<Rightarrow>
        (case MemberParentClass (node_at h CallNode) of
           None \<Rightarrow> dep_state ds
         | Some FunctionClass \<Rightarrow> AddDependency (ObjPathName FunctionClass) (dep_state ds)))
   = dep_state (foldl AddUnique ds (filter (\<lambda>P. P \<noteq> []) (class_paths h n)))"
proof (cases "K2Node_CallFunction \<in> set (NodeBases (node_at h n))")
  case False
  then show ?thesis by (simp add: Cast_def class_paths_def)
next
  case True
  show ?thesis
  proof (cases "MemberParentClass (node_at h n)")
    case None
    with True show ?thesis by (simp add: Cast_def class_paths_def)
  next
    case (Some F)
    with True show ?thesis by (simp add: Cast_def class_paths_def AddDependency_dep_state)
  qed
qed

lemma dep_nodes_loop:
  "for_each Ns
     (\<lambda>Node st.
        case Node of
          None \<Rightarrow> Inr st
        | Some n \<Rightarrow>
            let st =
                  (case Cast h K2Node_CallFunction Node of
                     None \<Rightarrow> st
                   | Some CallNode \<Rightarrow>
                       (case MemberParentClass (node_at h CallNode) of
                          None \<Rightarrow> st
                        | Some FunctionClass \<Rightarrow>
                            AddDependency (ObjPathName FunctionClass) st))
            in
            for_each (Pins (node_at h n))
              (\<lambda>Pin st.
                 case Pin of
                   None \<Rightarrow> Inr st
                 | Some p \<Rightarrow>
                     if PinCategory (PinType (pin_at h p)) = PC_Object K then
                       (case DefaultObject (pin_at h p) of
                          None \<Rightarrow> Inr st
                        | Some Obj \<Rightarrow>
                            Inr (AddDependency (ObjPathName Obj) st))
                     else Inr st)
              st)
     (dep_state ds)
   = Inr (dep_state (foldl AddUnique ds
            (filter (\<lambda>P. P \<noteq> []) (concat (map (node_paths K h) (non_null Ns))))))"
  (is "for_each Ns ?body (dep_state ds) = _")
proof -
  let ?f = "\<lambda>Node. case Node of None \<Rightarrow> [] | Some n \<Rightarrow> node_paths K h n"
  have "?body x (dep_state ds)
        = Inr (dep_state (foldl AddUnique ds (filter (\<lambda>P. P \<noteq> []) (?f x))))" for x ds
  proof (cases x)
    case None
    then show ?thesis by simp
  next
    case (Some n)
    then show ?thesis
      by (simp only: option.case Let_def class_step dep_pins_loop node_paths_def
          filter_append foldl_append)
  qed
  then have "for_each Ns ?body (dep_state ds)
        = Inr (dep_state (foldl AddUnique ds (filter (\<lambda>P. P \<noteq> []) (concat (map ?f Ns)))))"
    by (rule for_each_deps)
  then show ?thesis by (simp add: concat_map_option)
qed

lemma ExtractDependencies_eq:
  "ExtractDependencies K h (Some b) = Inr (map JString (first_seen (encountered_paths K h b)))"
proof -
  let ?f = "\<lambda>G. case G of None \<Rightarrow> []
              | Some g \<Rightarrow> concat (map (node_paths K h) (non_null (Nodes (graph_at h g))))"
  let ?body = "\<lambda>Graph st.
             case Graph of
               None \<Rightarrow> Inr st
             | Some g \<Rightarrow>
                 for_each (Nodes (graph_at h g))
                   (\<lambda>Node st.
                      case Node of
                        None \<Rightarrow> Inr st
                      | Some n \<Rightarrow>
                          let st =
                                (case Cast h K2Node_CallFunction Node of
                                   None \<Rightarrow> st
                                 | Some CallNode \<Rightarrow>
                                     (case MemberParentClass (node_at h CallNode) of
                                        None \<Rightarrow> st
                                      | Some FunctionClass \<Rightarrow>
                                          AddDependency (ObjPathName FunctionClass) st))
                          in
                          for_each (Pins (node_at h n))
                            (\<lambda>Pin st.
                               case Pin of
                                 None \<Rightarrow> Inr st
                               | Some p \<Rightarrow>
                                   if PinCategory (PinType (pin_at h p)) = PC_Object K then
                                     (case DefaultObject (pin_at h p) of
                                        None \<Rightarrow> Inr st
                                      | Some Obj \<Rightarrow>
                                          Inr (AddDependency (ObjPathName Obj) st))
                                   else Inr st)
                            st)
                   st"
  have c: "concat (map ?f Gs)
           = concat (map (node_paths K h) (concat (map (\<lambda>g. non_null (Nodes (graph_at h g))) (non_null Gs))))"
    for Gs
    by (induction Gs rule: non_null.induct) simp_all
  have e: "([], {}) = dep_state []"
    by (simp add: dep_state_def)
  have "?body x (dep_state ds)
        = Inr (dep_state (foldl AddUnique ds (filter (\<lambda>P. P \<noteq> []) (?f x))))" for x ds
  proof (cases x)
    case None
    then show ?thesis by simp
  next
    case (Some g)
    then show ?thesis by (simp only: option.case dep_nodes_loop)
  qed
  then have "for_each (UbergraphPages (blueprint_at h b)) ?body (dep_state [])
        = Inr (dep_state (foldl AddUnique [] (filter (\<lambda>P. P \<noteq> [])
                 (concat (map ?f (UbergraphPages (blueprint_at h b)))))))"
    by (rule for_each_deps)
  then have "for_each (UbergraphPages (blueprint_at h b)) ?body ([], {})
        = Inr (dep_state (first_seen (encountered_paths K h b)))"
    unfolding e by (simp add: c encountered_paths_def foldl_AddUnique)
  then show ?thesis
    unfolding ExtractDependencies_def by (simp add: dep_state_def)
qed

lemma graphs_loop:
  "for_each Gs
     (\<lambda>Graph GraphsArray.
        if Graph \<noteq> None then
          (case SerializeGraph h Graph of Inl e \<Rightarrow> Inl e | Inr j \<Rightarrow> Inr (GraphsArray @ [j]))
        else Inr GraphsArray)
     acc
   = Inr (acc @ map (graph_record h) (non_null Gs))"
  using for_each_append [where f = "\<lambda>G. case G of None \<Rightarrow> [] | Some g \<Rightarrow> [graph_record h g]"
      and xs = Gs and acc = acc]
  by (auto simp: SerializeGraph_eq concat_map_option split: option.splits
      simp del: not_None_eq)

lemma SerializeBlueprint_eq:
  "SerializeBlueprint K h (Some b) = Inr (blueprint_record K h b)"
  by (cases "ParentClass (blueprint_at h b)"; cases "GeneratedClass (blueprint_at h b)")
     (simp_all add: SerializeBlueprint_def blueprint_record_def graph_records_def SetField_def
        Let_def graphs_loop SerializeVariables_eq SerializeFunctions_eq SerializeComponents_eq
        ExtractDependencies_eq del: not_None_eq)

section \<open>The notification source delivers an event\<close>

lemma run_handler_effect:
  "run_handler K b AssetData w = w\<lparr>invoked := invoked w @ calls K (monitor_at w) AssetData b\<rparr>"
proof (cases b)
  case (Pair this m)
  then show ?thesis
    by (cases m)
       (simp_all add: OnAssetAdded_def OnAssetRemoved_def OnAssetModified_def ExecuteIfBound_def
          calls_def split: option.split)
qed

lemma Broadcast_effect:
  "Broadcast K d AssetData w
   = w\<lparr>invoked := invoked w @ concat (map (calls K (monitor_at w) AssetData) d)\<rparr>"
  by (induction d arbitrary: w) (simp_all add: run_handler_effect)

lemma calls_other:
  "fst b \<noteq> this \<Longrightarrow> calls K (mon(this := m)) AssetData b = calls K mon AssetData b"
  by (simp add: calls_def split: option.split)

lemma concat_calls_other:
  "subscriptions d this = [] \<Longrightarrow>
   concat (map (calls K (mon(this := m)) AssetData) d) = concat (map (calls K mon AssetData) d)"
  by (induction d) (auto simp: subscriptions_def calls_other split: if_splits)

lemma RemoveAll_idle: "subscriptions d this = [] \<Longrightarrow> RemoveAll d this = d"
  by (induction d) (auto simp: subscriptions_def RemoveAll_def split: if_splits)

lemma subscriptions_RemoveAll: "subscriptions (RemoveAll d this) this = []"
  by (induction d) (auto simp: subscriptions_def RemoveAll_def)

section \<open>The example evaluated\<close>

lemmas ex_defs = ex_engine_def ex_store_def ex_blueprint_def ex_graph_def ex_node_def
  ex_make_node_def ex_pin_def ex_make_pin_def ex_type_def ex_object_def

lemma ex_encountered: "encountered_paths ex_engine ex_store 0 = [''A'', ''B'', ''A'', ''C'']"
  by (simp add: encountered_paths_def node_paths_def class_paths_def pin_paths_def ex_defs)

lemma ex_wire_targets: "wire_targets ex_store 5 = [2, 3]"
  by (simp add: wire_targets_def linked_nodes_def ex_defs)

lemma ex_function_graphs: "non_null (FunctionGraphs (blueprint_at ex_store 0)) = [4, 2, 3]"
  by (simp add: ex_defs)

lemma ex_entry_nodes:
  "entry_nodes ex_store 4 = [6, 7]" "entry_nodes ex_store 2 = [8]" "entry_nodes ex_store 3 = []"
  by (simp_all add: entry_nodes_def ex_defs)

lemma ex_entry_parameters:
  "entry_parameters ex_engine ex_store 6
   = [JObject [(''name'', JString ''Speed''), (''type'', JString ''float'')]]"
  "entry_parameters ex_engine ex_store 7
   = [JObject [(''name'', JString ''Count''), (''type'', JString ''int'')]]"
  "entry_parameters ex_engine ex_store 8
   = [JObject [(''name'', JString ''Force''), (''type'', JString ''bool'')]]"
  by (simp_all add: entry_parameters_def is_parameter_def parameter_record_def
      PinTypeToString_def FName_ToString_def ex_defs)


section \<open>The claims\<close>

text \<open>
  C1. For every blueprint, the dependency pass over its top-level graphs returns the paths
  met on the walk (graphs in the given order, nodes of a graph in the given order, for a
  node the class path of the function it calls before the default objects of its
  object-typed pins, empty paths left out), each distinct path once, in the order of its
  first occurrence.
\<close>

theorem ExtractDependencies_first_occurrence:
  "ExtractDependencies K h (Some b) = Inr (map JString (first_seen (encountered_paths K h b)))
   \<and> distinct (first_seen (encountered_paths K h b))
   \<and> set (first_seen (encountered_paths K h b)) = set (encountered_paths K h b)"
proof -
  have "ExtractDependencies K h (Some b)
        = Inr (map JString (first_seen (encountered_paths K h b)))"
    by (rule ExtractDependencies_eq)
  moreover have "distinct (first_seen (encountered_paths K h b))"
    by (rule distinct_first_seen)
  moreover have "set (first_seen (encountered_paths K h b)) = set (encountered_paths K h b)"
    by (rule set_first_seen)
  ultimately show ?thesis by simp
qed

text \<open>On the blueprint \<open>Door\<close> the walk meets the paths A, B, A, C and the pass returns
  A, B, C.\<close>

theorem ExtractDependencies_example:
  "encountered_paths ex_engine ex_store 0 = [''A'', ''B'', ''A'', ''C'']
   \<and> ExtractDependencies ex_engine ex_store (Some 0)
       = Inr [JString ''A'', JString ''B'', JString ''C'']"
  using ExtractDependencies_first_occurrence [of ex_engine ex_store 0]
  by (simp add: ex_encountered)

text \<open>C2 as stated fails: after two calls of \<open>StartMonitoring\<close> on an idle monitor the
  asset-added delegate holds two bindings of the monitor, and one asset-added event of a
  blueprint runs the callback twice.\<close>

theorem StartMonitoring_twice_counterexample:
  "OnAssetAddedEvent (StartMonitoring 0 (Some 9) (StartMonitoring 0 (Some 7) ex_world))
     = [(0, H_OnAssetAdded), (0, H_OnAssetAdded)]
   \<and> invoked (asset_added ex_engine ex_event
         (StartMonitoring 0 (Some 9) (StartMonitoring 0 (Some 7) ex_world)))
       = [(9, 0), (9, 0)]"
  by (simp add: StartMonitoring_def AddUObject_def asset_added_def OnAssetAdded_def
      ExecuteIfBound_def ex_world_def ex_event_def ex_engine_def Let_def)

text \<open>
  C2, as amended. For every monitor that is idle, calling \<open>StartMonitoring\<close> twice in a
  row leaves two subscriptions of the monitor per event class and the callback of the second
  call stored; every asset-added or asset-modified event of a blueprint then runs that
  callback twice more than it ran callbacks before the two calls, and an asset-removed
  event runs none. \<open>StopMonitoring\<close> removes every subscription of the monitor, and
  on an idle monitor it changes nothing.
\<close>

theorem StartMonitoring_twice:
  assumes "Idle w this"
    and "AssetClassPath AssetData = BlueprintClassPath K"
    and "Asset AssetData = Some Blueprint"
  shows "subscriptions (OnAssetAddedEvent (StartMonitoring this (Some f2) (StartMonitoring this c1 w))) this
           = [(this, H_OnAssetAdded), (this, H_OnAssetAdded)]
     \<and> subscriptions (OnAssetRemovedEvent (StartMonitoring this (Some f2) (StartMonitoring this c1 w))) this
           = [(this, H_OnAssetRemoved), (this, H_OnAssetRemoved)]
     \<and> subscriptions (OnAssetUpdatedEvent (StartMonitoring this (Some f2) (StartMonitoring this c1 w))) this
           = [(this, H_OnAssetModified), (this, H_OnAssetModified)]
     \<and> OnBlueprintChangedDelegate
           (monitor_at (StartMonitoring this (Some f2) (StartMonitoring this c1 w)) this) = Some f2
     \<and> invoked (asset_added K AssetData (StartMonitoring this (Some f2) (StartMonitoring this c1 w)))
           = invoked (asset_added K AssetData w) @ [(f2, Blueprint), (f2, Blueprint)]
     \<and> invoked (asset_updated K AssetData (StartMonitoring this (Some f2) (StartMonitoring this c1 w)))
           = invoked (asset_updated K AssetData w) @ [(f2, Blueprint), (f2, Blueprint)]
     \<and> invoked (asset_removed K AssetData (StartMonitoring this (Some f2) (StartMonitoring this c1 w)))
           = invoked (asset_removed K AssetData w)
     \<and> Idle (StopMonitoring this (StartMonitoring this (Some f2) (StartMonitoring this c1 w))) this
     \<and> StopMonitoring this w = w"
proof -
  let ?w2 = "StartMonitoring this (Some f2) (StartMonitoring this c1 w)"
  from assms(1) have idle:
    "subscriptions (OnAssetAddedEvent w) this = []"
    "subscriptions (OnAssetRemovedEvent w) this = []"
    "subscriptions (OnAssetUpdatedEvent w) this = []"
    by (simp_all add: Idle_def)
  have d: "OnAssetAddedEvent ?w2 = OnAssetAddedEvent w @ [(this, H_OnAssetAdded), (this, H_OnAssetAdded)]"
    "OnAssetRemovedEvent ?w2 = OnAssetRemovedEvent w @ [(this, H_OnAssetRemoved), (this, H_OnAssetRemoved)]"
    "OnAssetUpdatedEvent ?w2 = OnAssetUpdatedEvent w @ [(this, H_OnAssetModified), (this, H_OnAssetModified)]"
    by (simp_all add: StartMonitoring_def AddUObject_def Let_def)
  have m: "monitor_at ?w2 = (monitor_at w)(this := (monitor_at w this)\<lparr>OnBlueprintChangedDelegate := Some f2\<rparr>)"
    by (simp add: StartMonitoring_def Let_def fun_eq_iff)
  have i: "invoked ?w2 = invoked w"
    by (simp add: StartMonitoring_def Let_def)
  have subs: "subscriptions (OnAssetAddedEvent ?w2) this = [(this, H_OnAssetAdded), (this, H_OnAssetAdded)]"
    "subscriptions (OnAssetRemovedEvent ?w2) this = [(this, H_OnAssetRemoved), (this, H_OnAssetRemoved)]"
    "subscriptions (OnAssetUpdatedEvent ?w2) this = [(this, H_OnAssetModified), (this, H_OnAssetModified)]"
    using idle unfolding d by (simp_all add: subscriptions_def)
  have cb: "OnBlueprintChangedDelegate (monitor_at ?w2 this) = Some f2"
    by (simp add: m)
  have added: "invoked (asset_added K AssetData ?w2)
      = invoked (asset_added K AssetData w) @ [(f2, Blueprint), (f2, Blueprint)]"
    using assms(2,3)
    by (simp add: asset_added_def Broadcast_effect d i m concat_calls_other [OF idle(1)] calls_def)
  have updated: "invoked (asset_updated K AssetData ?w2)
      = invoked (asset_updated K AssetData w) @ [(f2, Blueprint), (f2, Blueprint)]"
    using assms(2,3)
    by (simp add: asset_updated_def Broadcast_effect d i m concat_calls_other [OF idle(3)] calls_def)
  have removed: "invoked (asset_removed K AssetData ?w2) = invoked (asset_removed K AssetData w)"
    by (simp add: asset_removed_def Broadcast_effect d i m concat_calls_other [OF idle(2)] calls_def)
  have stop2: "Idle (StopMonitoring this ?w2) this"
    by (simp add: Idle_def StopMonitoring_def Let_def subscriptions_RemoveAll)
  have stop: "StopMonitoring this w = w"
    using idle by (simp add: StopMonitoring_def Let_def RemoveAll_idle)
  from subs cb added updated removed stop2 stop show ?thesis
    by simp
qed

text \<open>On the notification source nobody has subscribed to.\<close>

theorem StartMonitoring_twice_example:
  "Idle ex_world 0
   \<and> AssetClassPath ex_event = BlueprintClassPath ex_engine
   \<and> Asset ex_event = Some 0
   \<and> subscriptions (OnAssetAddedEvent
         (StartMonitoring 0 (Some 9) (StartMonitoring 0 (Some 7) ex_world))) 0
       = [(0, H_OnAssetAdded), (0, H_OnAssetAdded)]
   \<and> invoked (asset_updated ex_engine ex_event
         (StartMonitoring 0 (Some 9) (StartMonitoring 0 (Some 7) ex_world)))
       = [(9, 0), (9, 0)]
   \<and> StopMonitoring 0 ex_world = ex_world"
proof -
  have a: "Idle ex_world 0"
    by (simp add: Idle_def subscriptions_def ex_world_def)
  have b: "AssetClassPath ex_event = BlueprintClassPath ex_engine"
    by (simp add: ex_event_def ex_engine_def)
  have c: "Asset ex_event = Some 0"
    by (simp add: ex_event_def)
  have "invoked (asset_updated ex_engine ex_event ex_world) = []"
    by (simp add: asset_updated_def ex_world_def)
  with StartMonitoring_twice [OF a b c, of 9 "Some 7"] a b c show ?thesis
    by simp
qed

text \<open>C3 as stated fails: the entry node 6 has an empty category, and its record carries
  the field \<open>category\<close> with the empty string.\<close>

theorem category_emitted_counterexample:
  "result_field (SerializeNode ex_store (Some 6)) ''category'' = Some (JString [])
   \<and> GetNodeCategory ex_store (Some 6) = []"
  by (simp add: SerializeNode_eq result_field_def field_def node_record_def GetNodeCategory_def
      Cast_def ex_defs)

text \<open>
  C3, as amended. The record of a pin and the record of a variable have the field
  \<open>default_value\<close> exactly when the default literal is not empty, and the document of
  a blueprint has the fields \<open>parent_class\<close> and \<open>generated_class\<close> exactly when
  the class is present; a field left out is absent, not null or empty. The field
  \<open>category\<close> of a node and of a variable is always there, with the empty string when
  the category is empty.
\<close>

theorem optional_fields_omitted:
  "result_field (SerializePin h (Some p)) ''default_value''
     = (if DefaultValue (pin_at h p) = [] then None else Some (JString (DefaultValue (pin_at h p))))
   \<and> (\<exists>vars. SerializeVariables K h (Some b) = Inr vars
          \<and> map (\<lambda>j. field j ''default_value'') vars
              = map (\<lambda>v. if VarDefaultValue v = [] then None
                         else Some (JString (VarDefaultValue v)))
                  (NewVariables (blueprint_at h b))
          \<and> map (\<lambda>j. field j ''category'') vars
              = map (\<lambda>v. Some (JString (Category v))) (NewVariables (blueprint_at h b)))
   \<and> result_field (SerializeBlueprint K h (Some b)) ''parent_class''
       = map_option (\<lambda>c. JString (ObjName c)) (ParentClass (blueprint_at h b))
   \<and> result_field (SerializeBlueprint K h (Some b)) ''generated_class''
       = map_option (\<lambda>c. JString (ObjName c)) (GeneratedClass (blueprint_at h b))
   \<and> result_field (SerializeNode h (Some n)) ''category''
       = Some (JString (GetNodeCategory h (Some n)))"
proof -
  have pin: "result_field (SerializePin h (Some p)) ''default_value''
     = (if DefaultValue (pin_at h p) = [] then None else Some (JString (DefaultValue (pin_at h p))))"
    by (simp add: SerializePin_eq result_field_def field_def pin_record_def)
  have var: "field (variable_record K v) ''default_value''
     = (if VarDefaultValue v = [] then None else Some (JString (VarDefaultValue v)))"
    "field (variable_record K v) ''category'' = Some (JString (Category v))" for v
    by (simp_all add: field_def variable_record_def)
  have bp: "result_field (SerializeBlueprint K h (Some b)) ''parent_class''
       = map_option (\<lambda>c. JString (ObjName c)) (ParentClass (blueprint_at h b))"
    "result_field (SerializeBlueprint K h (Some b)) ''generated_class''
       = map_option (\<lambda>c. JString (ObjName c)) (GeneratedClass (blueprint_at h b))"
    by (cases "ParentClass (blueprint_at h b)"; cases "GeneratedClass (blueprint_at h b)";
        simp add: SerializeBlueprint_eq result_field_def field_def blueprint_record_def)+
  have node: "result_field (SerializeNode h (Some n)) ''category''
       = Some (JString (GetNodeCategory h (Some n)))"
    by (simp add: SerializeNode_eq result_field_def field_def node_record_def)
  show ?thesis
    using pin bp node by (simp add: SerializeVariables_eq var comp_def)
qed

text \<open>The pin 10 has no default literal and the pin 81 has one; the blueprint has a parent
  class and no generated class.\<close>

theorem optional_fields_example:
  "result_field (SerializePin ex_store (Some 10)) ''default_value'' = None
   \<and> result_field (SerializePin ex_store (Some 81)) ''default_value'' = Some (JString ''true'')
   \<and> result_field (SerializeBlueprint ex_engine ex_store (Some 0)) ''generated_class'' = None
   \<and> result_field (SerializeBlueprint ex_engine ex_store (Some 0)) ''parent_class''
       = Some (JString ''Actor'')"
  using optional_fields_omitted [of ex_store 10 ex_engine 0 0]
    optional_fields_omitted [of ex_store 81 ex_engine 0 0]
  by (simp add: ex_defs)

text \<open>
  C4. For every node, the \<open>connections\<close> field of its record lists the names of the
  nodes reached through the wires of its output pins, every node once, in first-seen
  order. When the nodes reached have different names, this is the list of the names
  reached, de-duplicated in first-seen order, and no name occurs twice.
\<close>

theorem connections_first_seen:
  "result_field (SerializeNode h (Some n)) ''connections''
     = Some (JArray (map (\<lambda>m. JString (NodeName (node_at h m))) (first_seen (wire_targets h n))))
   \<and> (inj_on (\<lambda>m. NodeName (node_at h m)) (set (wire_targets h n)) \<longrightarrow>
        map (\<lambda>m. NodeName (node_at h m)) (first_seen (wire_targets h n))
          = first_seen (map (\<lambda>m. NodeName (node_at h m)) (wire_targets h n))
        \<and> distinct (map (\<lambda>m. NodeName (node_at h m)) (first_seen (wire_targets h n))))"
proof -
  have "distinct (map f (first_seen xs))" if "inj_on f (set xs)" for f :: "addr \<Rightarrow> FString" and xs
    using that by (simp add: distinct_map distinct_first_seen set_first_seen)
  then show ?thesis
    by (simp add: SerializeNode_eq result_field_def field_def node_record_def first_seen_map_inj)
qed

text \<open>The node \<open>N1\<close>, with one output pin wired to input pins of \<open>N2\<close> and \<open>N3\<close>,
  has the connections N2, N3, and its output pin holds both wires.\<close>

theorem connections_fan_out:
  "inj_on (\<lambda>m. NodeName (node_at ex_store m)) (set (wire_targets ex_store 5))
   \<and> result_field (SerializeNode ex_store (Some 5)) ''connections''
       = Some (JArray [JString ''N2'', JString ''N3''])
   \<and> LinkedTo (pin_at ex_store 10) = [Some 20, Some 30]"
proof -
  have n: "NodeName (node_at ex_store 2) = ''N2''" "NodeName (node_at ex_store 3) = ''N3''"
    by (simp_all add: ex_defs)
  have l: "LinkedTo (pin_at ex_store 10) = [Some 20, Some 30]"
    by (simp add: ex_defs)
  have i: "inj_on (\<lambda>m. NodeName (node_at ex_store m)) (set (wire_targets ex_store 5))"
    by (simp add: ex_wire_targets n)
  show ?thesis
    using connections_first_seen [of ex_store 5] i l by (simp add: ex_wire_targets n)
qed

text \<open>
  C5. The classification is total: the type string of every node is the string of exactly
  one kind of the closed taxonomy, found by testing the kinds in the fixed order Event,
  FunctionEntry, CallExternalFunction, VariableRead, VariableWrite, the first match
  winning; a node of none of these kinds gets the kind Other, whose type string is the name
  of the node's class. Nothing fails.
\<close>

theorem NodeTypeToString_classify:
  "NodeTypeToString h (Some n) = type_string (classify (node_at h n))
   \<and> classify (node_at h n)
       = (if K2Node_Event \<in> set (NodeBases (node_at h n)) then Event
          else if K2Node_FunctionEntry \<in> set (NodeBases (node_at h n)) then FunctionEntry
          else if K2Node_CallFunction \<in> set (NodeBases (node_at h n)) then CallExternalFunction
          else if K2Node_VariableGet \<in> set (NodeBases (node_at h n)) then VariableRead
          else if K2Node_VariableSet \<in> set (NodeBases (node_at h n)) then VariableWrite
          else Other (NodeClassName (node_at h n)))"
  by (simp add: NodeTypeToString_def classify_def taxonomy_def Cast_def)

text \<open>A comment node gets the name of its class; a node that is an event, a function entry
  and a variable write at once is an event.\<close>

theorem NodeTypeToString_example:
  "NodeTypeToString ex_store (Some 4) = ''EdGraphNode_Comment''
   \<and> classify (node_at ex_store 4) = Other ''EdGraphNode_Comment''
   \<and> NodeTypeToString (ex_store\<lparr>node_at := \<lambda>a. ex_make_node ''N'' ''C''
         [K2Node_VariableSet, K2Node_FunctionEntry, K2Node_Event] [] [] None\<rparr>) (Some 0) = ''Event''"
  using NodeTypeToString_classify [of ex_store 4]
    NodeTypeToString_classify [of "ex_store\<lparr>node_at := \<lambda>a. ex_make_node ''N'' ''C''
         [K2Node_VariableSet, K2Node_FunctionEntry, K2Node_Event] [] [] None\<rparr>" 0]
  by (simp add: ex_defs)

text \<open>
  C6. The type encoder gives \<open>Base\<close> when no referenced type is present,
  \<open>Base<ReferencedTypeName>\<close> when one is present, and wraps the whole result as
  \<open>Array<...>\<close> when the collection flag is set. It never fails, and every type
  descriptor, carrying a base category as its callers must ensure, encodes to a string
  that is not empty.
\<close>

theorem PinTypeToString_format:
  "PinTypeToString \<lparr>PinCategory = Base, PinSubCategoryObject = None, IsArray = False\<rparr> = Base
   \<and> PinTypeToString \<lparr>PinCategory = Base, PinSubCategoryObject = Some R, IsArray = False\<rparr>
       = Base @ ''<'' @ ObjName R @ ''>''
   \<and> PinTypeToString (T\<lparr>IsArray := True\<rparr>)
       = ''Array<'' @ PinTypeToString (T\<lparr>IsArray := False\<rparr>) @ ''>''
   \<and> (PinCategory T \<noteq> [] \<longrightarrow> PinTypeToString T \<noteq> [])"
  by (cases "PinSubCategoryObject T")
     (simp_all add: PinTypeToString_def FName_ToString_def Let_def)

text \<open>A float, and an array of references to the class \<open>Actor\<close>.\<close>

theorem PinTypeToString_example:
  "PinCategory (ex_type ''float'') \<noteq> []
   \<and> PinTypeToString (ex_type ''float'') = ''float''
   \<and> PinTypeToString (ex_type ''float'') \<noteq> []
   \<and> PinTypeToString
         \<lparr>PinCategory = ''object'', PinSubCategoryObject = Some (ex_object ''Actor''),
          IsArray = True\<rparr>
       = ''Array<object<Actor>>''"
  using PinTypeToString_format [of "''float''" "ex_object ''Actor''" "ex_type ''float''"]
    PinTypeToString_format [of "''object''" "ex_object ''Actor''"
      "\<lparr>PinCategory = ''object'', PinSubCategoryObject = Some (ex_object ''Actor''),
        IsArray = False\<rparr>"]
  by (simp add: ex_type_def ex_object_def)

text \<open>
  C7. When the blueprint pointer is null, extracting the data returns the empty document
  \<open>{}\<close> and exporting to a file returns false and leaves the file system as it was;
  neither serializes, which would dereference the null pointer.
\<close>

theorem null_blueprint_fails:
  "ExtractBlueprintData K h None = Inr ''{}''
   \<and> ExportBlueprintToFile K h None FilePath fs = Inr (False, fs)
   \<and> SerializeBlueprint K h None = Inl NullDereference"
  by (simp add: ExtractBlueprintData_def ExportBlueprintToFile_def SerializeBlueprint_def)

text \<open>
  C8. For every function graph of the blueprint that has one entry node, the entry of the
  \<open>functions\<close> array at the position of the graph among the function graphs carries
  the name of the graph, as parameters one record of name and type for each
  output-direction, non-exec pin of the entry node, in the order of the pins, and the
  record of the same graph.
\<close>

theorem SerializeFunctions_entry:
  assumes "i < length (non_null (FunctionGraphs (blueprint_at h b)))"
    and "g = non_null (FunctionGraphs (blueprint_at h b)) ! i"
    and "entry_nodes h g = [e]"
  shows "\<exists>fs G. SerializeFunctions K h (Some b) = Inr fs
           \<and> length fs = length (non_null (FunctionGraphs (blueprint_at h b)))
           \<and> SerializeGraph h (Some g) = Inr G
           \<and> fs ! i
               = JObject [(''name'', JString (GraphName (graph_at h g))),
                          (''parameters'',
                           JArray (map (parameter_record h)
                                     (filter (is_parameter K h) (non_null (Pins (node_at h e)))))),
                          (''graph'', G)]"
  using assms
  by (simp add: SerializeFunctions_eq SerializeGraph_eq function_record_def entry_parameters_def)

text \<open>The function graph \<open>Reset\<close>, second of the function graphs, has the entry node 8
  with the exec pin \<open>then\<close> and the parameter \<open>Force\<close>.\<close>

theorem SerializeFunctions_entry_example:
  "Suc 0 < length (non_null (FunctionGraphs (blueprint_at ex_store 0)))
   \<and> 2 = non_null (FunctionGraphs (blueprint_at ex_store 0)) ! Suc 0
   \<and> entry_nodes ex_store 2 = [8]
   \<and> (\<exists>fs. SerializeFunctions ex_engine ex_store (Some 0) = Inr fs
         \<and> fs ! Suc 0
             = JObject [(''name'', JString ''Reset''),
                        (''parameters'',
                         JArray [JObject [(''name'', JString ''Force''),
                                          (''type'', JString ''bool'')]]),
                        (''graph'', graph_record ex_store 2)])"
proof -
  have i: "Suc 0 < length (non_null (FunctionGraphs (blueprint_at ex_store 0)))"
    and g: "2 = non_null (FunctionGraphs (blueprint_at ex_store 0)) ! Suc 0"
    by (simp_all add: ex_function_graphs)
  have n: "GraphName (graph_at ex_store 2) = ''Reset''"
    by (simp add: ex_defs)
  from SerializeFunctions_entry [OF i g ex_entry_nodes(2), of ex_engine]
  have "\<exists>fs. SerializeFunctions ex_engine ex_store (Some 0) = Inr fs
         \<and> fs ! Suc 0
             = JObject [(''name'', JString ''Reset''),
                        (''parameters'',
                         JArray [JObject [(''name'', JString ''Force''),
                                          (''type'', JString ''bool'')]]),
                        (''graph'', graph_record ex_store 2)]"
    using ex_entry_parameters(3)
    by (auto simp: ex_function_graphs n SerializeGraph_eq entry_parameters_def)
  with i g ex_entry_nodes(2) show ?thesis by simp
qed

text \<open>
  C9. Serializing a blueprint never dereferences a null pointer, whatever null entries its
  arrays hold: it returns a document, whose \<open>graphs\<close> array has one record for each
  graph pointer that is not null, the top-level graphs before the function graphs; the
  \<open>nodes\<close> array of a graph has one record for each node pointer that is not null
  and the \<open>pins\<close> array of a node one record for each pin pointer that is not null,
  all in the order of the source.
\<close>

theorem serialization_skips_null:
  "SerializeBlueprint K h (Some b) = Inr (blueprint_record K h b)
   \<and> field (blueprint_record K h b) ''graphs''
       = Some (JArray (map (graph_record h)
                 (non_null (UbergraphPages (blueprint_at h b))
                  @ non_null (FunctionGraphs (blueprint_at h b)))))
   \<and> SerializeGraph h (Some g) = Inr (graph_record h g)
   \<and> field (graph_record h g) ''nodes''
       = Some (JArray (map (node_record h) (non_null (Nodes (graph_at h g)))))
   \<and> SerializeNode h (Some n) = Inr (node_record h n)
   \<and> field (node_record h n) ''pins''
       = Some (JArray (map (pin_record h) (non_null (Pins (node_at h n)))))
   \<and> length (non_null xs) = length (filter (\<lambda>x. x \<noteq> None) xs)"
proof -
  have "field (blueprint_record K h b) ''graphs''
       = Some (JArray (map (graph_record h)
                 (non_null (UbergraphPages (blueprint_at h b))
                  @ non_null (FunctionGraphs (blueprint_at h b)))))"
    by (cases "ParentClass (blueprint_at h b)"; cases "GeneratedClass (blueprint_at h b)")
       (simp_all add: field_def blueprint_record_def graph_records_def)
  moreover have "length (non_null xs) = length (filter (\<lambda>x. x \<noteq> None) xs)"
    by (induction xs rule: non_null.induct) simp_all
  ultimately show ?thesis
    by (simp add: SerializeBlueprint_eq SerializeGraph_eq SerializeNode_eq field_def
        graph_record_def node_record_def)
qed

text \<open>The arrays of the blueprint \<open>Door\<close>, of its event graph and of the node
  \<open>N2\<close> hold a null pointer each, which the document skips.\<close>

theorem serialization_skips_null_example:
  "UbergraphPages (blueprint_at ex_store 0) = [Some 0, None]
   \<and> Nodes (graph_at ex_store 0) = [Some 5, None, Some 2, Some 3, Some 4]
   \<and> Pins (node_at ex_store 2) = [Some 20, None, Some 21]
   \<and> result_field (SerializeGraph ex_store (Some 0)) ''nodes''
       = Some (JArray [node_record ex_store 5, node_record ex_store 2, node_record ex_store 3,
                       node_record ex_store 4])
   \<and> result_field (SerializeNode ex_store (Some 2)) ''pins''
       = Some (JArray [pin_record ex_store 20, pin_record ex_store 21])"
  using serialization_skips_null [of ex_engine ex_store 0 0 2 "[]"]
  by (simp add: result_field_def ex_defs)

text \<open>
  C10. The parameters of a function graph are the parameters of all its entry nodes, in
  the order of the nodes: the search does not stop at the first entry node, and a function
  graph without an entry node has an empty parameters list.
\<close>

theorem parameters_of_all_entry_nodes:
  "SerializeFunctions K h (Some b)
     = Inr (map (function_record K h) (non_null (FunctionGraphs (blueprint_at h b))))
   \<and> field (function_record K h g) ''parameters''
       = Some (JArray (concat (map (entry_parameters K h) (entry_nodes h g))))
   \<and> entry_parameters K h e
       = map (parameter_record h) (filter (is_parameter K h) (non_null (Pins (node_at h e))))
   \<and> (entry_nodes h g = [] \<longrightarrow> field (function_record K h g) ''parameters'' = Some (JArray []))"
proof -
  have "SerializeFunctions K h (Some b)
        = Inr (map (function_record K h) (non_null (FunctionGraphs (blueprint_at h b))))"
    by (rule SerializeFunctions_eq)
  moreover have "field (function_record K h g) ''parameters''
        = Some (JArray (concat (map (entry_parameters K h) (entry_nodes h g))))"
    by (simp add: field_def function_record_def)
  moreover have "entry_parameters K h e
        = map (parameter_record h) (filter (is_parameter K h) (non_null (Pins (node_at h e))))"
    by (simp add: entry_parameters_def)
  ultimately show ?thesis by simp
qed

text \<open>The function graph \<open>GetSpeed\<close> has two entry nodes, with one parameter each,
  and the function graph \<open>Helper\<close> has none.\<close>

theorem parameters_of_all_entry_nodes_example:
  "entry_nodes ex_store 4 = [6, 7]
   \<and> field (function_record ex_engine ex_store 4) ''parameters''
       = Some (JArray [JObject [(''name'', JString ''Speed''), (''type'', JString ''float'')],
                       JObject [(''name'', JString ''Count''), (''type'', JString ''int'')]])
   \<and> entry_nodes ex_store 3 = []
   \<and> field (function_record ex_engine ex_store 3) ''parameters'' = Some (JArray [])
   \<and> SerializeFunctions ex_engine ex_store (Some 0)
       = Inr [function_record ex_engine ex_store 4, function_record ex_engine ex_store 2,
              function_record ex_engine ex_store 3]"
  using parameters_of_all_entry_nodes [of ex_engine ex_store 0 4 6]
    parameters_of_all_entry_nodes [of ex_engine ex_store 0 3 6]
  by (simp add: ex_entry_nodes ex_entry_parameters ex_function_graphs)

end
